theory Spec2Isabelle
  imports Complex_Main "HOL-Library.Char_ord" "HOL-Library.List_Lexorder"
begin

section \<open>Shallow embedding of \<open>hapy/stats/stats.py\<close>\<close>

text \<open>
  The functions of \<open>stats.py\<close> are translated one by one, under their own names.

  \<^item> Python strings are \<^typ>\<open>string\<close>, ordered by code point and lexicographically
    (\<open>Char_ord\<close>, \<open>List_Lexorder\<close>), which is the order pandas sorts labels in.
  \<^item> Every exception the code can raise is a value of \<open>py_error\<close>, and a function that
    can raise returns \<open>py_error + 'a\<close>.
  \<^item> Floats are modelled by the reals, and \<open>np.nan\<close> as a result field by \<open>NaN\<close>. The
    code compares a float with a constant in one place (the frequency floor) and divides
    in the F statistic; both are discussed where they are defined.
  \<^item> The fitting and distribution functions of statsmodels, scipy and sklearn are
    parameters (\<open>ext\<close>): the claims are about what the code does with their results.
\<close>

datatype py_error =
  KeyError | IndexError | ValueError | NameError | AttributeError | TypeError | FloatingPointError

subsection \<open>\<open>checkAAblock\<close>\<close>

text \<open>
  \<open>collections.Counter\<close> over a list: a dictionary, so its items are kept in the order
  of first occurrence of each key.
\<close>

fun Counter_add :: "'a \<Rightarrow> ('a \<times> nat) list \<Rightarrow> ('a \<times> nat) list" where
  "Counter_add x [] = [(x, 1)]"
| "Counter_add x ((k, n) # kvs) =
     (if k = x then (k, Suc n) # kvs else (k, n) # Counter_add x kvs)"

definition Counter :: "'a list \<Rightarrow> ('a \<times> nat) list" where
  "Counter xs = fold Counter_add xs []"

text \<open>
  \<open>sorted(items, key=lambda item: item[1], reverse=True)\<close>: Python's sort is stable also
  with \<open>reverse=True\<close>, so this is the stable sort on the negated count.
\<close>

definition sorted_by_count :: "('a \<times> nat) list \<Rightarrow> ('a \<times> nat) list" where
  "sorted_by_count items = sort_key (\<lambda>item. - int (snd item)) items"

text \<open>
  The value \<open>checkAAblock\<close> returns is either a string (a letter, a code of the block,
  or the empty string) or the block itself, a list of codes.
\<close>

datatype aablock = Code string | Codes "string list"

definition checkAAblock :: "string list \<Rightarrow> py_error + aablock" where
  "checkAAblock aablock =
     (let aminoacids = sorted_by_count (Counter (concat aablock)) in
      if length aminoacids > 1 then
        (case aminoacids of
           (k0, n0) # (k1, n1) # _ \<Rightarrow>
             if n0 \<noteq> n1 then Inr (Code [k0]) else Inr (Codes aablock)
         | _ \<Rightarrow> Inr (Codes aablock))
      else if length aminoacids = 1 then
        (case aablock of [] \<Rightarrow> Inl IndexError | b0 # _ \<Rightarrow> Inr (Code b0))
      else Inr (Code ''''))"

subsection \<open>Data frames\<close>

text \<open>
  A pandas \<open>DataFrame\<close> is a list of row labels and a list of labelled columns, each
  holding one value per row. \<open>np.nan\<close> in a result field is \<open>NaN\<close>.
\<close>

datatype 'a cell = NaN | Val 'a

record 'a frame =
  index :: "string list"
  columns :: "(string \<times> 'a list) list"

definition shape0 :: "'a frame \<Rightarrow> nat" where
  "shape0 df = length (index df)"

definition shape1 :: "'a frame \<Rightarrow> nat" where
  "shape1 df = length (columns df)"

definition column_labels :: "'a frame \<Rightarrow> string list" where
  "column_labels df = map fst (columns df)"

text \<open>\<open>df.drop(label, axis=1)\<close>: every column of that label goes; an unknown label raises.\<close>

definition drop_column :: "'a frame \<Rightarrow> string \<Rightarrow> py_error + 'a frame" where
  "drop_column df label =
     (if label \<in> set (column_labels df)
      then Inr (df\<lparr>columns := filter (\<lambda>c. fst c \<noteq> label) (columns df)\<rparr>)
      else Inl KeyError)"

text \<open>\<open>df[labels]\<close>: for each label in turn, the columns of that label.\<close>

definition select_columns :: "'a frame \<Rightarrow> string list \<Rightarrow> py_error + 'a frame" where
  "select_columns df labels =
     (if list_all (\<lambda>l. l \<in> set (column_labels df)) labels
      then Inr (df\<lparr>columns := concat (map (\<lambda>l. filter (\<lambda>c. fst c = l) (columns df)) labels)\<rparr>)
      else Inl KeyError)"

text \<open>\<open>df[mask]\<close> with a boolean mask over the rows.\<close>

definition filter_rows :: "bool list \<Rightarrow> 'a frame \<Rightarrow> 'a frame" where
  "filter_rows keep df =
     \<lparr>index = map snd (filter fst (zip keep (index df))),
      columns = map (\<lambda>c. (fst c, map snd (filter fst (zip keep (snd c))))) (columns df)\<rparr>"

text \<open>\<open>df.T\<close>; a frame is rectangular, so every column has a value at every row.\<close>

definition transpose_frame :: "'a frame \<Rightarrow> 'a frame" where
  "transpose_frame df =
     \<lparr>index = column_labels df,
      columns = map (\<lambda>i. (index df ! i, map (\<lambda>c. snd c ! i) (columns df)))
                  [0..<length (index df)]\<rparr>"

text \<open>\<open>df.sort_index()\<close>: the rows in the order of their labels.\<close>

definition sort_index :: "'a frame \<Rightarrow> 'a frame" where
  "sort_index df =
     \<lparr>index = sort (index df),
      columns = map (\<lambda>c. (fst c, map snd (sort_key fst (zip (index df) (snd c))))) (columns df)\<rparr>"

definition rename_columns :: "(string \<Rightarrow> string) \<Rightarrow> 'a frame \<Rightarrow> 'a frame" where
  "rename_columns f df = df\<lparr>columns := map (\<lambda>c. (f (fst c), snd c)) (columns df)\<rparr>"

text \<open>\<open>df.sum()\<close>, the column totals, and \<open>np.argmax\<close>, the first position of the maximum.\<close>

definition column_sums :: "('a::monoid_add) frame \<Rightarrow> 'a list" where
  "column_sums df = map (\<lambda>c. sum_list (snd c)) (columns df)"

fun argmax_from :: "('a::linorder) list \<Rightarrow> nat \<Rightarrow> nat \<Rightarrow> 'a \<Rightarrow> nat" where
  "argmax_from [] i best_i best = best_i"
| "argmax_from (x # xs) i best_i best =
     (if best < x then argmax_from xs (Suc i) i x else argmax_from xs (Suc i) best_i best)"

definition argmax :: "('a::linorder) list \<Rightarrow> py_error + nat" where
  "argmax xs = (case xs of [] \<Rightarrow> Inl ValueError | x # rest \<Rightarrow> Inr (argmax_from rest 1 0 x))"

text \<open>\<open>Series.unique()\<close> keeps first occurrences; \<open>sep.join(xs)\<close>; \<open>str.lower()\<close> on ASCII.\<close>

definition unique :: "'a list \<Rightarrow> 'a list" where
  "unique xs = rev (remdups (rev xs))"

fun join :: "string \<Rightarrow> string list \<Rightarrow> string" where
  "join sep [] = []"
| "join sep [x] = x"
| "join sep (x # y # ys) = x @ sep @ join sep (y # ys)"

definition lower :: "string \<Rightarrow> string" where
  "lower s = map (\<lambda>c. case map_of (zip ''ABCDEFGHIJKLMNOPQRSTUVWXYZ''
                                       ''abcdefghijklmnopqrstuvwxyz'') c of
                         None \<Rightarrow> c | Some d \<Rightarrow> d) s"

subsection \<open>\<open>get_aminoacids\<close> and \<open>getRefAA\<close>\<close>

text \<open>\<open>i.split("_")[-1]\<close> and \<open>x.split(".")[0]\<close>.\<close>

definition residue :: "string \<Rightarrow> string" where
  "residue i = rev (takeWhile (\<lambda>c. c \<noteq> CHR ''_'') (rev i))"

definition base_id :: "string \<Rightarrow> string" where
  "base_id x = takeWhile (\<lambda>c. c \<noteq> CHR ''.'') x"

text \<open>The positions of a label that hold a presence marker.\<close>

definition presence :: "string \<Rightarrow> nat list" where
  "presence haplo =
     filter (\<lambda>i. haplo ! i = CHR ''P'' \<or> haplo ! i = CHR ''T'' \<or> haplo ! i = CHR ''p'')
       [0..<length haplo]"

text \<open>numpy indexing by a list of positions, \<open>aalist[presence]\<close>: out of range raises.\<close>

definition take_indices :: "'a list \<Rightarrow> nat list \<Rightarrow> py_error + 'a list" where
  "take_indices xs ns =
     (if list_all (\<lambda>i. i < length xs) ns then Inr (map (\<lambda>i. xs ! i) ns) else Inl IndexError)"

text \<open>Python truthiness of what \<open>checkAAblock\<close> returned.\<close>

fun truthy :: "aablock \<Rightarrow> bool" where
  "truthy (Code s) = (s \<noteq> [])"
| "truthy (Codes bs) = (bs \<noteq> [])"

fun get_aminoacids_loop ::
  "string list \<Rightarrow> string list \<Rightarrow> aablock list \<Rightarrow> py_error + aablock list" where
  "get_aminoacids_loop aalist [] aablocks = Inr aablocks"
| "get_aminoacids_loop aalist (x # haplotypes) aablocks =
     (case take_indices aalist (presence x) of
        Inl e \<Rightarrow> Inl e
      | Inr block \<Rightarrow>
          (case checkAAblock block of
             Inl e \<Rightarrow> Inl e
           | Inr block' \<Rightarrow>
               get_aminoacids_loop aalist haplotypes
                 (if truthy block' then aablocks @ [block'] else aablocks)))"

definition get_aminoacids :: "string list \<Rightarrow> string list \<Rightarrow> py_error + aablock list" where
  "get_aminoacids idlist haplotypes = get_aminoacids_loop (map residue idlist) haplotypes []"

definition getRefAA :: "string \<Rightarrow> string list \<Rightarrow> py_error + aablock" where
  "getRefAA haplo aalist =
     (case take_indices (map residue aalist) (presence haplo) of
        Inl e \<Rightarrow> Inl e
      | Inr aminoacids \<Rightarrow> checkAAblock aminoacids)"

subsection \<open>\<open>makehaplodf\<close>\<close>

text \<open>
  The block \<open>aa_df\<close> of one \<open>AA_ID\<close> has one row per residue and one column per sample
  copy (\<open>id\<close> and \<open>id.1\<close>); its \<open>AA_ID\<close> column, which \<open>makehaplodf\<close> drops first, is
  kept in the info table. \<open>haplo_rows\<close> is the transposed block with the joined label
  and the truncated sample identifier of each copy. A block has at least one sample
  copy: what pandas does on a frame with no rows is not modelled.
\<close>

definition haplo_rows :: "string frame \<Rightarrow> (string \<times> string) list" where
  "haplo_rows aa_df = map (\<lambda>c. (base_id (fst c), concat (snd c))) (columns aa_df)"

text \<open>
  \<open>groupby(["index", "haplo"]).size().unstack(fill_value=0)\<close>: the sorted sample
  identifiers as rows, the sorted labels as columns, and the number of copies of the
  sample that carry the label as value.
\<close>

definition groupby_size_unstack :: "(string \<times> string) list \<Rightarrow> nat frame" where
  "groupby_size_unstack rows =
     (let idx = sort (remdups (map fst rows));
          labels = sort (remdups (map snd rows))
      in \<lparr>index = idx,
          columns = map (\<lambda>l. (l, map (\<lambda>i. count_list rows (i, l)) idx)) labels\<rparr>)"

text \<open>
  \<open>df.sum(0)/2/df.shape[0] > 0.01\<close>. Floats are modelled by the reals: the total and
  the row count are integers, both divisions are correctly rounded, and the quotient can
  round to the float \<open>0.01\<close> from the other side only beyond \<open>10^15\<close> rows.
\<close>

definition highfreq :: "nat frame \<Rightarrow> string \<times> nat list \<Rightarrow> bool" where
  "highfreq df c = (real (sum_list (snd c)) / 2 / real (shape0 df) > 0.01)"

definition makehaplodf :: "string frame \<Rightarrow> bool \<Rightarrow> py_error + (nat frame \<times> aablock list)" where
  "makehaplodf aa_df basicQC =
     (let aminoacids = index aa_df;
          df = groupby_size_unstack (haplo_rows aa_df)
      in case (if basicQC
               then select_columns df (map fst (filter (highfreq df) (columns df)))
               else Inr df) of
           Inl e \<Rightarrow> Inl e
         | Inr df \<Rightarrow>
             (case get_aminoacids aminoacids (column_labels df) of
                Inl e \<Rightarrow> Inl e
              | Inr aminoacids \<Rightarrow> Inr (sort_index df, aminoacids)))"

subsection \<open>\<open>obt_haplo_hard\<close> and \<open>obt_haplo_soft\<close>\<close>

text \<open>
  The design matrix of a variant holds counts (hard calls) or dosages (soft calls). The
  five values both builders return are the fields of \<open>hapresult\<close>.
\<close>

datatype design = Counts "nat frame" | Dosage "real frame"

record hapresult =
  haplodf :: design
  AAcount :: nat
  refAA :: aablock
  aalist :: "aablock list"
  haplocount :: nat

definition obt_haplo_hard :: "string frame \<Rightarrow> py_error + hapresult" where
  "obt_haplo_hard aadf =
     (if shape0 aadf > 1 then
        (case makehaplodf aadf True of
           Inl e \<Rightarrow> Inl e
         | Inr (df, aas) \<Rightarrow>
             let count = shape1 df;
                 missing = replicate (shape0 aadf) CHR ''A'';
                 missing2 = replicate (shape0 aadf) CHR ''a''
             in if missing \<in> set (column_labels df) \<or> missing2 \<in> set (column_labels df) then
                  (case drop_column df missing of
                     Inl e \<Rightarrow> Inl e
                   | Inr df' \<Rightarrow>
                       Inr \<lparr>haplodf = Counts df', AAcount = count, refAA = Code ''missing'',
                            aalist = aas, haplocount = shape1 df'\<rparr>)
                else
                  (case argmax (column_sums df) of
                     Inl e \<Rightarrow> Inl e
                   | Inr refix \<Rightarrow>
                       let refcol = column_labels df ! refix in
                       (case drop_column df refcol of
                          Inl e \<Rightarrow> Inl e
                        | Inr df' \<Rightarrow>
                            (case getRefAA refcol (index aadf) of
                               Inl e \<Rightarrow> Inl e
                             | Inr ref \<Rightarrow>
                                 Inr \<lparr>haplodf = Counts df', AAcount = count, refAA = ref,
                                      aalist = aas, haplocount = shape1 df'\<rparr>))))
      else
        (case makehaplodf aadf True of
           Inl e \<Rightarrow> Inl e
         | Inr (df, _) \<Rightarrow>
             let labels = column_labels df in
             if length labels > 1 then
               (case argmax (column_sums df) of
                  Inl e \<Rightarrow> Inl e
                | Inr refix \<Rightarrow>
                    let refcol = column_labels df ! refix in
                    (case drop_column df refcol of
                       Inl e \<Rightarrow> Inl e
                     | Inr df' \<Rightarrow>
                         Inr \<lparr>haplodf = Counts df', AAcount = 2, refAA = Code refcol,
                              aalist = map Code labels, haplocount = shape1 df'\<rparr>))
             else
               Inr \<lparr>haplodf = Counts df, AAcount = 0,
                    refAA = Code (hd (labels @ [''missing''])),
                    aalist = map Code (labels @ [''missing'']), haplocount = shape1 df\<rparr>))"

text \<open>
  \<open>makehaploprob\<close>: the rows whose residue is one letter, relabelled by it, transposed
  (samples as rows) and sorted; dosages are reals.
\<close>

definition makehaploprob :: "real frame \<Rightarrow> bool \<Rightarrow> py_error + real frame" where
  "makehaploprob aa_df basicQC =
     (let AA = map residue (index aa_df);
          df = filter_rows (map (\<lambda>a. length a = 1) AA) (aa_df\<lparr>index := AA\<rparr>);
          df = sort_index (transpose_frame df)
      in case (if basicQC
               then select_columns df
                      (map fst (filter (\<lambda>c. sum_list (snd c) / (real (shape0 df) * 2) > 0.01)
                                  (columns df)))
               else Inr df) of
           Inl e \<Rightarrow> Inl e
         | Inr df \<Rightarrow> Inr (sort_index df))"

text \<open>
  One row of the info table. The allele columns exist only in tables read from dosage
  files; \<open>None\<close> is a table without them.
\<close>

record info_row =
  AA_ID :: string
  GENE :: "string cell"
  AA_POS :: "string cell"
  POS :: "string cell"
  alleles :: "(string \<times> string) option"

definition replace_char :: "char \<Rightarrow> string \<Rightarrow> string \<Rightarrow> string" where
  "replace_char old new s = concat (map (\<lambda>c. if c = old then new else [c]) s)"

definition obt_haplo_soft :: "real frame \<Rightarrow> info_row list \<Rightarrow> py_error + hapresult" where
  "obt_haplo_soft aadf infodf =
     (if shape0 aadf > 1 then
        (case makehaploprob aadf True of
           Inl e \<Rightarrow> Inl e
         | Inr df \<Rightarrow>
             let labels = column_labels df; count = length labels in
             (case argmax (column_sums df) of
                Inl e \<Rightarrow> Inl e
              | Inr refix \<Rightarrow>
                  let ref = column_labels df ! refix in
                  (case drop_column df ref of
                     Inl e \<Rightarrow> Inl e
                   | Inr df' \<Rightarrow>
                       Inr \<lparr>haplodf = Dosage (rename_columns
                              (\<lambda>cname. ''AA_'' @ replace_char CHR ''*'' ''asterisk''
                                                 (replace_char CHR ''.'' ''dot'' cname)) df'),
                            AAcount = count, refAA = Code ref, aalist = map Code labels,
                            haplocount = shape1 df'\<rparr>)))
      else
        (case index aadf of
           [] \<Rightarrow> Inl ValueError
         | row # _ \<Rightarrow>
             let df = (transpose_frame aadf)\<lparr>columns :=
                        map (\<lambda>c. (''solo_amino_acid'', snd c)) (columns (transpose_frame aadf))\<rparr>;
                 suffix = residue row
             in if length suffix = 1 then
                  Inr \<lparr>haplodf = Dosage df, AAcount = 2, refAA = Code suffix,
                       aalist = [Code suffix, Code ''missing''], haplocount = shape1 df\<rparr>
                else
                  (case infodf of
                     [] \<Rightarrow> Inl IndexError
                   | i # _ \<Rightarrow>
                       (case alleles i of
                          None \<Rightarrow> Inl KeyError
                        | Some (alleleA, alleleB) \<Rightarrow>
                            Inr \<lparr>haplodf = Dosage df, AAcount = 2, refAA = Code alleleA,
                                 aalist = [Code alleleA, Code alleleB],
                                 haplocount = shape1 df\<rparr>))))"

subsection \<open>Model fitting and significance tests\<close>

text \<open>
  What the code reads of a fitted statsmodels result. A GLM result has no \<open>ssr\<close>
  attribute. Floats are modelled by the reals.
\<close>

record fitted =
  llf :: real
  df_model :: real
  df_resid :: real
  scale :: real
  ssr :: "real option"
  predict :: "real list"
  params :: "(string \<times> real) list"
  pvalues :: "(string \<times> real) list"
  conf_int :: "(string \<times> real \<times> real) list"

record fam_row =
  IID :: string
  SEX :: int
  PHENO :: "real cell"

text \<open>
  The analysis table \<open>pd.concat([haplodf, fam], axis=1)\<close>: the exposure columns, then
  \<open>SEX\<close> and \<open>PHENO\<close>, joined on the sample identifier.
\<close>

record abt =
  exposure :: design
  covariates :: "fam_row list"

definition design_labels :: "design \<Rightarrow> string list" where
  "design_labels d = (case d of Counts df \<Rightarrow> column_labels df | Dosage df \<Rightarrow> column_labels df)"

definition abt_columns :: "abt \<Rightarrow> string list" where
  "abt_columns t = design_labels (exposure t) @ [''SEX'', ''PHENO'']"

text \<open>
  The library functions the code calls, as parameters: the two fits of a formula on an
  analysis table, \<open>scipy.stats.chi2.sf\<close>, \<open>scipy.stats.f.sf\<close>, sklearn's
  \<open>log_loss(ytrue, ypred, normalize=False)\<close>, \<open>round(x, 3)\<close>, and \<open>str\<close> of a
  float and of a list of codes.
\<close>

record ext =
  glm_fit :: "string \<Rightarrow> abt \<Rightarrow> py_error + fitted"
  ols_fit :: "string \<Rightarrow> abt \<Rightarrow> py_error + fitted"
  chi2_sf :: "real \<Rightarrow> real \<Rightarrow> real"
  f_sf :: "real \<Rightarrow> real \<Rightarrow> real \<Rightarrow> real"
  log_loss :: "real cell list \<Rightarrow> (real \<times> real) list \<Rightarrow> real"
  round3 :: "real \<Rightarrow> real"
  str_float :: "real \<Rightarrow> string"
  str_list :: "string list \<Rightarrow> string"

definition lrtest :: "ext \<Rightarrow> fitted \<Rightarrow> fitted \<Rightarrow> real \<times> real" where
  "lrtest e nullmodel altmodel =
     (let alt_llf = llf altmodel;
          null_llf = llf nullmodel;
          lr = 2 * (alt_llf - null_llf);
          all_dof = df_model altmodel;
          null_dof = df_model nullmodel;
          dof = all_dof - null_dof;
          p = chi2_sf e lr dof
      in (lr, p))"

definition deviance :: "ext \<Rightarrow> real cell list \<Rightarrow> fitted \<Rightarrow> real" where
  "deviance e ytrue model =
     (let ypred = map (\<lambda>p. (1 - p, p)) (predict model)
      in 2 * log_loss e ytrue ypred)"

text \<open>
  A float division by zero gives \<open>inf\<close> or \<open>nan\<close> in numpy arithmetic; the reals have
  neither, and the model stops there with \<open>FloatingPointError\<close>.
\<close>

definition anova ::
  "ext \<Rightarrow> fitted \<Rightarrow> fitted \<Rightarrow> real cell list \<Rightarrow> string \<Rightarrow> py_error + real \<times> real" where
  "anova e nullmodel altmodel ytrue modeltype =
     (case (if modeltype = ''logit''
            then Inr (deviance e ytrue altmodel, deviance e ytrue nullmodel)
            else (case ssr altmodel of
                    None \<Rightarrow> Inl AttributeError
                  | Some alt_ssr \<Rightarrow>
                      (case ssr nullmodel of
                         None \<Rightarrow> Inl AttributeError
                       | Some null_ssr \<Rightarrow> Inr (alt_ssr, null_ssr)))) of
        Inl err \<Rightarrow> Inl err
      | Inr (alt_ssr, null_ssr) \<Rightarrow>
          let alt_df_resid = df_resid altmodel;
              null_df_resid = df_resid nullmodel;
              ssdiff = null_ssr - alt_ssr;
              dof = null_df_resid - alt_df_resid
          in if dof = 0 \<or> scale altmodel = 0 then Inl FloatingPointError
             else let fvalue = ssdiff / dof / scale altmodel;
                      pvalue = f_sf e fvalue dof alt_df_resid
                  in Inr (fvalue, pvalue))"

fun lookup_all :: "(string \<times> 'a) list \<Rightarrow> string list \<Rightarrow> py_error + 'a list" where
  "lookup_all kvs [] = Inr []"
| "lookup_all kvs (k # ks) =
     (case map_of kvs k of
        None \<Rightarrow> Inl KeyError
      | Some v \<Rightarrow> (case lookup_all kvs ks of Inl e \<Rightarrow> Inl e | Inr vs \<Rightarrow> Inr (v # vs)))"

definition obt ::
  "ext \<Rightarrow> abt \<Rightarrow> nat \<Rightarrow> string \<Rightarrow> py_error + real \<times> real \<times> real \<times> real \<times> real list" where
  "obt e t haplotypenumber model =
     (let cols = abt_columns t;
          altf = ''PHENO ~ C(SEX) +'' @ join ''+'' (take (length cols - 2) cols);
          nullf = (if length (drop haplotypenumber (take (length cols - 2) cols)) > 0
                   then ''PHENO ~ C(SEX) +''
                        @ join ''+'' (drop haplotypenumber (take (length cols - 2) cols))
                   else ''PHENO ~ C(SEX)'');
          fit = (if lower model = ''logit'' then glm_fit e else ols_fit e)
      in case fit altf t of
           Inl err \<Rightarrow> Inl err
         | Inr alt_model \<Rightarrow>
             (case fit nullf t of
                Inl err \<Rightarrow> Inl err
              | Inr null_model \<Rightarrow>
                  (case lrtest e null_model alt_model of
                     (lrstat, lrp) \<Rightarrow>
                       (case anova e null_model alt_model (map PHENO (covariates t)) model of
                          Inl err \<Rightarrow> Inl err
                        | Inr (fstat, fp) \<Rightarrow>
                            (case lookup_all (params alt_model) (take haplotypenumber cols) of
                               Inl err \<Rightarrow> Inl err
                             | Inr coefs \<Rightarrow>
                                 Inr (lrstat, lrp, fstat, fp, map (round3 e) coefs))))))"

definition linear_model :: "ext \<Rightarrow> abt \<Rightarrow> string \<Rightarrow> py_error + real \<times> real \<times> real \<times> real" where
  "linear_model e t model =
     (let cols = abt_columns t;
          f = ''PHENO ~ C(SEX) +'' @ join ''+'' (take (length cols - 2) cols);
          fit = (if lower model = ''logit'' then glm_fit e else ols_fit e)
      in case fit f t of
           Inl err \<Rightarrow> Inl err
         | Inr m \<Rightarrow>
             (case map_of (pvalues m) (hd cols) of
                None \<Rightarrow> Inl KeyError
              | Some pvalue \<Rightarrow>
                  (case map_of (params m) (hd cols) of
                     None \<Rightarrow> Inl KeyError
                   | Some coef \<Rightarrow>
                       (case map_of (conf_int m) (hd cols) of
                          None \<Rightarrow> Inl KeyError
                        | Some (ci1, ci2) \<Rightarrow> Inr (pvalue, round3 e coef, ci1, ci2)))))"

subsection \<open>The orchestrators \<open>analyseAA\<close> and \<open>analyseSNP\<close>\<close>

text \<open>
  The data table of a variant type holds calls (strings) or dosages (floats), with one
  info row per data row. \<open>htype\<close> is the field \<open>type\<close> of \<open>HLAdata\<close>. Where the
  declared type and the cells disagree, the code fails on the cells (\<open>"".join\<close> of
  floats is a \<open>TypeError\<close>); the model returns \<open>TypeError\<close> for both mismatches.
\<close>

datatype gdata = Hardcalls "string frame" | Softcalls "real frame"

record gtable =
  data :: gdata
  info :: "info_row list"

record HLAdata =
  HLA :: gtable
  SNP :: gtable
  AA :: gtable
  htype :: string

definition subsectionFam :: "'a frame \<Rightarrow> fam_row list \<Rightarrow> string \<Rightarrow> py_error + 'a frame" where
  "subsectionFam df famfile datatype =
     (let newix = (if datatype = ''softcall'' then map IID famfile
                   else if datatype = ''hardcall''
                   then concat (map (\<lambda>r. [IID r, IID r @ ''.1'']) famfile)
                   else [])
      in select_columns df newix)"

text \<open>\<open>processAnalysisInput_\<close>: the covariates rebased and sorted, the data trimmed to
  the covariates' samples, and the variant identifiers in the order of the info table.\<close>

definition processAnalysisInput ::
  "gtable \<Rightarrow> fam_row list \<Rightarrow> string
   \<Rightarrow> py_error + gdata \<times> info_row list \<times> fam_row list \<times> string list" where
  "processAnalysisInput tbl famfile datatype =
     (let fam = sort_key IID
                  (map (\<lambda>r. r\<lparr>PHENO := (case PHENO r of NaN \<Rightarrow> NaN | Val v \<Rightarrow> Val (v - 1))\<rparr>)
                     famfile)
      in case (case data tbl of
                 Hardcalls df \<Rightarrow>
                   (case subsectionFam df fam datatype of
                      Inl e \<Rightarrow> Inl e | Inr df' \<Rightarrow> Inr (Hardcalls df'))
               | Softcalls df \<Rightarrow>
                   (case subsectionFam df fam datatype of
                      Inl e \<Rightarrow> Inl e | Inr df' \<Rightarrow> Inr (Softcalls df'))) of
           Inl e \<Rightarrow> Inl e
         | Inr d \<Rightarrow> Inr (d, info tbl, fam, unique (map AA_ID (info tbl))))"

text \<open>\<open>df[df.AA_ID==x]\<close> and \<open>info[info.AA_ID==x]\<close>.\<close>

definition slice_data :: "gdata \<Rightarrow> info_row list \<Rightarrow> string \<Rightarrow> gdata" where
  "slice_data d infos x =
     (case d of
        Hardcalls df \<Rightarrow> Hardcalls (filter_rows (map (\<lambda>r. AA_ID r = x) infos) df)
      | Softcalls df \<Rightarrow> Softcalls (filter_rows (map (\<lambda>r. AA_ID r = x) infos) df))"

definition slice_info :: "info_row list \<Rightarrow> string \<Rightarrow> info_row list" where
  "slice_info infos x = filter (\<lambda>r. AA_ID r = x) infos"

text \<open>
  One output row of \<open>analyseAA\<close>. \<open>Amino_Acids\<close> joins a Python set, whose order the
  language does not fix; the model keeps the set of the joined strings.
\<close>

record aa_row =
  out_VARIANT :: string
  out_GENE :: "string cell"
  out_AA_POS :: "string cell"
  LR_p :: "real cell"
  Anova_p :: "real cell"
  multi_Coef :: "string cell"
  Uni_p :: "real cell"
  Uni_Coef :: "real cell"
  Amino_Acids :: "string set"
  Ref_AA :: "aablock cell"

record aa_out = aa_row +
  LRp_Unip :: "real cell"

definition str_aablock :: "ext \<Rightarrow> aablock \<Rightarrow> string" where
  "str_aablock e b = (case b of Code s \<Rightarrow> s | Codes bs \<Rightarrow> str_list e bs)"

definition build_haplo :: "string \<Rightarrow> gdata \<Rightarrow> info_row list \<Rightarrow> py_error + hapresult" where
  "build_haplo t aadf aainfo =
     (if t = ''softcall'' then
        (case aadf of Softcalls df \<Rightarrow> obt_haplo_soft df aainfo | Hardcalls _ \<Rightarrow> Inl TypeError)
      else if t = ''hardcall'' then
        (case aadf of Hardcalls df \<Rightarrow> obt_haplo_hard df | Softcalls _ \<Rightarrow> Inl TypeError)
      else Inl NameError)"

definition analyseAA_row ::
  "ext \<Rightarrow> string \<Rightarrow> info_row list \<Rightarrow> fam_row list \<Rightarrow> string \<Rightarrow> hapresult
   \<Rightarrow> py_error + aa_row" where
  "analyseAA_row e x aainfo fam modeltype r =
     (let t = \<lparr>exposure = haplodf r, covariates = fam\<rparr>
      in case (if AAcount r > 2 then
                 (case obt e t (haplocount r) modeltype of
                    Inl err \<Rightarrow> Inl err
                  | Inr (_, lrp, _, anovap, multicoef) \<Rightarrow>
                      Inr (Val lrp, Val anovap,
                           Val (join '', '' (map (str_float e) multicoef)),
                           NaN, NaN, Val (refAA r)))
               else if AAcount r = 2 then
                 (case linear_model e t modeltype of
                    Inl err \<Rightarrow> Inl err
                  | Inr (uni_p, coef, _, _) \<Rightarrow>
                      Inr (NaN, NaN, NaN, Val uni_p, Val coef, Val (refAA r)))
               else Inr (NaN, NaN, NaN, NaN, NaN, NaN)) of
           Inl err \<Rightarrow> Inl err
         | Inr (lrp, anovap, multicoef, uni_p, coef, ref) \<Rightarrow>
             (case aainfo of
                [] \<Rightarrow> Inl IndexError
              | i # _ \<Rightarrow>
                  Inr \<lparr>out_VARIANT = x, out_GENE = GENE i, out_AA_POS = AA_POS i,
                       LR_p = lrp, Anova_p = anovap, multi_Coef = multicoef,
                       Uni_p = uni_p, Uni_Coef = coef,
                       Amino_Acids = set (map (str_aablock e) (aalist r)),
                       Ref_AA = ref\<rparr>))"

fun analyseAA_loop ::
  "ext \<Rightarrow> string \<Rightarrow> gdata \<Rightarrow> info_row list \<Rightarrow> fam_row list \<Rightarrow> string \<Rightarrow> string list
   \<Rightarrow> aa_row list \<Rightarrow> py_error + aa_row list" where
  "analyseAA_loop e t df infos fam modeltype [] output = Inr output"
| "analyseAA_loop e t df infos fam modeltype (x # aminoacids) output =
     (case build_haplo t (slice_data df infos x) (slice_info infos x) of
        Inl err \<Rightarrow> Inl err
      | Inr r \<Rightarrow>
          (case analyseAA_row e x (slice_info infos x) fam modeltype r of
             Inl err \<Rightarrow> Inl err
           | Inr row \<Rightarrow> analyseAA_loop e t df infos fam modeltype aminoacids (output @ [row])))"

text \<open>\<open>output[["LR_p","Uni_p"]].fillna(0).sum(1).replace(0, np.nan)\<close>\<close>

definition fillna0 :: "real cell \<Rightarrow> real" where
  "fillna0 c = (case c of NaN \<Rightarrow> 0 | Val v \<Rightarrow> v)"

definition replace0 :: "real \<Rightarrow> real cell" where
  "replace0 v = (if v = 0 then NaN else Val v)"

definition add_LRp_Unip :: "aa_row \<Rightarrow> aa_out" where
  "add_LRp_Unip row =
     \<lparr>out_VARIANT = out_VARIANT row, out_GENE = out_GENE row, out_AA_POS = out_AA_POS row,
      LR_p = LR_p row, Anova_p = Anova_p row, multi_Coef = multi_Coef row,
      Uni_p = Uni_p row, Uni_Coef = Uni_Coef row, Amino_Acids = Amino_Acids row,
      Ref_AA = Ref_AA row,
      LRp_Unip = replace0 (fillna0 (LR_p row) + fillna0 (Uni_p row))\<rparr>"

definition analyseAA :: "ext \<Rightarrow> HLAdata \<Rightarrow> fam_row list \<Rightarrow> string \<Rightarrow> py_error + aa_out list" where
  "analyseAA e hladat famfile modeltype =
     (case processAnalysisInput (AA hladat) famfile (htype hladat) of
        Inl err \<Rightarrow> Inl err
      | Inr (df, infos, fam, aminoacids) \<Rightarrow>
          (case analyseAA_loop e (htype hladat) df infos fam modeltype aminoacids [] of
             Inl err \<Rightarrow> Inl err
           | Inr output \<Rightarrow> Inr (map add_LRp_Unip output)))"

text \<open>
  \<open>analyseSNP\<close>. The names \<open>conf_int1\<close> and \<open>conf_int2\<close> are local to the function, not
  to an iteration of its loop: the loop carries them (\<open>None\<close> while unbound, and reading
  an unbound name raises).
\<close>

record snp_row =
  snp_VARIANT :: string
  snp_POS :: "string cell"
  snp_Uni_p :: "real cell"
  snp_Uni_Coef :: "real cell"
  CI_0_025 :: real
  CI_0_975 :: real

definition rename_design :: "(string \<Rightarrow> string) \<Rightarrow> design \<Rightarrow> design" where
  "rename_design f d =
     (case d of Counts df \<Rightarrow> Counts (rename_columns f df)
              | Dosage df \<Rightarrow> Dosage (rename_columns f df))"

definition build_snp :: "string \<Rightarrow> gdata \<Rightarrow> py_error + design \<times> nat" where
  "build_snp t snpdf =
     (if t = ''softcall'' then
        (case snpdf of
           Softcalls df \<Rightarrow> Inr (Dosage (sort_index (transpose_frame df)), 2)
         | Hardcalls _ \<Rightarrow> Inl TypeError)
      else if t = ''hardcall'' then
        (case snpdf of
           Hardcalls df \<Rightarrow>
             (case obt_haplo_hard df of Inl e \<Rightarrow> Inl e | Inr r \<Rightarrow> Inr (haplodf r, AAcount r))
         | Softcalls _ \<Rightarrow> Inl TypeError)
      else Inl NameError)"

fun analyseSNP_loop ::
  "ext \<Rightarrow> string \<Rightarrow> gdata \<Rightarrow> info_row list \<Rightarrow> fam_row list \<Rightarrow> string \<Rightarrow> string list
   \<Rightarrow> (real \<times> real) option \<Rightarrow> snp_row list \<Rightarrow> py_error + snp_row list" where
  "analyseSNP_loop e t df infos fam modeltype [] conf output = Inr output"
| "analyseSNP_loop e t df infos fam modeltype (x # snps) conf output =
     (case build_snp t (slice_data df infos x) of
        Inl err \<Rightarrow> Inl err
      | Inr (nu_snpdf, count) \<Rightarrow>
          (case (if count = 2 then
                   (case linear_model e
                           \<lparr>exposure = rename_design (\<lambda>col. ''snp_'' @ col) nu_snpdf,
                            covariates = fam\<rparr> modeltype of
                      Inl err \<Rightarrow> Inl err
                    | Inr (uni_p, coef, conf_int1, conf_int2) \<Rightarrow>
                        Inr (Val uni_p, Val coef, Some (conf_int1, conf_int2)))
                 else Inr (NaN, NaN, conf)) of
             Inl err \<Rightarrow> Inl err
           | Inr (uni_p, coef, conf') \<Rightarrow>
               (case slice_info infos x of
                  [] \<Rightarrow> Inl IndexError
                | i # _ \<Rightarrow>
                    (case conf' of
                       None \<Rightarrow> Inl NameError
                     | Some (conf_int1, conf_int2) \<Rightarrow>
                         analyseSNP_loop e t df infos fam modeltype snps conf'
                           (output @ [\<lparr>snp_VARIANT = x, snp_POS = POS i, snp_Uni_p = uni_p,
                                       snp_Uni_Coef = coef, CI_0_025 = conf_int1,
                                       CI_0_975 = conf_int2\<rparr>])))))"

definition analyseSNP :: "ext \<Rightarrow> HLAdata \<Rightarrow> fam_row list \<Rightarrow> string \<Rightarrow> py_error + snp_row list" where
  "analyseSNP e hladat famfile modeltype =
     (case processAnalysisInput (SNP hladat) famfile (htype hladat) of
        Inl err \<Rightarrow> Inl err
      | Inr (df, infos, fam, snps) \<Rightarrow>
          analyseSNP_loop e (htype hladat) df infos fam modeltype snps None [])"

subsection \<open>Sample inputs\<close>

text \<open>
  An instance of the library parameters and a small hard-call data set of four samples,
  at which the theorems below are instantiated. The sample fit reads the formula and the
  exposure columns only: its log-likelihood grows and its residual sum of squares falls
  with the length of the formula, and its confidence bounds are the total of the
  exposure matrix and that total plus one.
\<close>

definition design_total :: "design \<Rightarrow> real" where
  "design_total d =
     (case d of Counts df \<Rightarrow> real (sum_list (column_sums df))
              | Dosage df \<Rightarrow> sum_list (column_sums df))"

definition sample_model :: "string \<Rightarrow> abt \<Rightarrow> fitted" where
  "sample_model f t =
     \<lparr>llf = real (length f), df_model = real (length f),
      df_resid = 100 - real (length f), scale = 1, ssr = Some (100 - real (length f)),
      predict = map (\<lambda>r. 1 / 2) (covariates t),
      params = map (\<lambda>l. (l, 1)) (design_labels (exposure t)),
      pvalues = map (\<lambda>l. (l, 1 / 2)) (design_labels (exposure t)),
      conf_int = map (\<lambda>l. (l, design_total (exposure t), design_total (exposure t) + 1))
                   (design_labels (exposure t))\<rparr>"

definition sample_ext :: ext where
  "sample_ext =
     \<lparr>glm_fit = (\<lambda>f t. Inr (sample_model f t)), ols_fit = (\<lambda>f t. Inr (sample_model f t)),
      chi2_sf = (\<lambda>x d. 1 / 4), f_sf = (\<lambda>x a b. 1 / 8),
      log_loss = (\<lambda>y p. real (length p)), round3 = (\<lambda>x. x),
      str_float = (\<lambda>x. ''1.0''), str_list = concat\<rparr>"

definition sample_fam :: "fam_row list" where
  "sample_fam =
     [\<lparr>IID = ''s2'', SEX = 2, PHENO = Val 2\<rparr>, \<lparr>IID = ''s1'', SEX = 1, PHENO = Val 1\<rparr>,
      \<lparr>IID = ''s3'', SEX = 1, PHENO = Val 2\<rparr>, \<lparr>IID = ''s4'', SEX = 2, PHENO = Val 1\<rparr>]"

definition sample_info :: "string \<Rightarrow> string \<Rightarrow> string \<Rightarrow> string \<Rightarrow> info_row" where
  "sample_info a g p q = \<lparr>AA_ID = a, GENE = Val g, AA_POS = Val p, POS = Val q, alleles = None\<rparr>"

definition sample_AA :: gtable where
  "sample_AA =
     \<lparr>data = Hardcalls
        \<lparr>index = [''AA_A_9_100_F'', ''AA_A_9_100_Y'', ''AA_B_5_200_S'', ''AA_B_5_200_T'',
                  ''AA_C_7_300''],
         columns =
           [(''s1'',   [''A'', ''A'', ''P'', ''A'', ''C'']),
            (''s1.1'', [''A'', ''T'', ''A'', ''P'', ''C'']),
            (''s2'',   [''A'', ''A'', ''P'', ''A'', ''C'']),
            (''s2.1'', [''A'', ''T'', ''P'', ''A'', ''C'']),
            (''s3'',   [''A'', ''A'', ''A'', ''P'', ''C'']),
            (''s3.1'', [''T'', ''A'', ''P'', ''A'', ''C'']),
            (''s4'',   [''A'', ''A'', ''P'', ''A'', ''C'']),
            (''s4.1'', [''A'', ''T'', ''A'', ''P'', ''C''])]\<rparr>,
      info = [sample_info ''AA_A_9_100'' ''A'' ''9'' ''100'',
              sample_info ''AA_A_9_100'' ''A'' ''9'' ''100'',
              sample_info ''AA_B_5_200'' ''B'' ''5'' ''200'',
              sample_info ''AA_B_5_200'' ''B'' ''5'' ''200'',
              sample_info ''AA_C_7_300'' ''C'' ''7'' ''300'']\<rparr>"

text \<open>
  Two SNPs. The first has the alleles \<open>A\<close> and \<open>G\<close>, and \<open>g\<close> is the call of the second
  copy of sample \<open>s1\<close> there; the second has the allele \<open>C\<close> in every copy.
\<close>

definition sample_SNP :: "string \<Rightarrow> gtable" where
  "sample_SNP g =
     \<lparr>data = Hardcalls
        \<lparr>index = [''rs1'', ''rs2''],
         columns =
           [(''s1'',   [''A'', ''C'']),
            (''s1.1'', [g, ''C'']),
            (''s2'',   [''G'', ''C'']),
            (''s2.1'', [''G'', ''C'']),
            (''s3'',   [''G'', ''C'']),
            (''s3.1'', [''G'', ''C'']),
            (''s4'',   [''G'', ''C'']),
            (''s4.1'', [''G'', ''C''])]\<rparr>,
      info = [\<lparr>AA_ID = ''rs1'', GENE = NaN, AA_POS = NaN, POS = Val ''101'', alleles = None\<rparr>,
              \<lparr>AA_ID = ''rs2'', GENE = NaN, AA_POS = NaN, POS = Val ''102'', alleles = None\<rparr>]\<rparr>"

definition sample_hladat :: "string \<Rightarrow> HLAdata" where
  "sample_hladat g =
     \<lparr>HLA = \<lparr>data = Hardcalls \<lparr>index = [], columns = []\<rparr>, info = []\<rparr>,
      SNP = sample_SNP g, AA = sample_AA, htype = ''hardcall''\<rparr>"

text \<open>What \<open>obt_haplo_hard\<close> returns on the three amino-acid positions of the sample.\<close>

definition sample_result :: "nat \<Rightarrow> hapresult" where
  "sample_result n =
     (if n = 3 then
        \<lparr>haplodf = Counts \<lparr>index = [''s1'', ''s2'', ''s3'', ''s4''],
                     columns = [(''AT'', [1, 1, 0, 1]), (''TA'', [0, 0, 1, 0])]\<rparr>,
         AAcount = 3, refAA = Code ''missing'', aalist = [Code ''Y'', Code ''F''],
         haplocount = 2\<rparr>
      else if n = 2 then
        \<lparr>haplodf = Counts \<lparr>index = [''s1'', ''s2'', ''s3'', ''s4''],
                     columns = [(''AP'', [1, 0, 1, 1])]\<rparr>,
         AAcount = 2, refAA = Code ''S'', aalist = [Code ''T'', Code ''S''],
         haplocount = 1\<rparr>
      else
        \<lparr>haplodf = Counts \<lparr>index = [''s1'', ''s2'', ''s3'', ''s4''],
                     columns = [(''C'', [2, 2, 2, 2])]\<rparr>,
         AAcount = 0, refAA = Code ''C'', aalist = [Code ''C'', Code ''missing''],
         haplocount = 1\<rparr>)"

text \<open>
  Blocks of one \<open>AA_ID\<close>: two positions with the labels \<open>AA\<close>, \<open>AT\<close> and \<open>TA\<close>; two
  positions in lower-case markers with the labels \<open>aa\<close>, \<open>ap\<close> and \<open>pa\<close>; one position
  with three alleles; one position with a single allele; one position of fifty
  samples where one copy in a hundred carries the allele \<open>A\<close> and the others \<open>T\<close>;
  and two positions of the two samples \<open>f.a\<close> and \<open>f.b\<close>, whose copies \<open>subsectionFam\<close>
  names \<open>f.a\<close>, \<open>f.a.1\<close>, \<open>f.b\<close> and \<open>f.b.1\<close>.
\<close>

definition sample_block :: "string frame" where
  "sample_block =
     \<lparr>index = [''AA_A_9_100_F'', ''AA_A_9_100_Y''],
      columns = [(''s1'', [''A'', ''A'']), (''s1.1'', [''A'', ''T'']),
                 (''s2'', [''A'', ''A'']), (''s2.1'', [''A'', ''T'']),
                 (''s3'', [''A'', ''A'']), (''s3.1'', [''T'', ''A'']),
                 (''s4'', [''A'', ''A'']), (''s4.1'', [''A'', ''T''])]\<rparr>"

definition sample_block_lower :: "string frame" where
  "sample_block_lower =
     \<lparr>index = [''AA_A_9_100_F'', ''AA_A_9_100_Y''],
      columns = [(''s1'', [''a'', ''a'']), (''s1.1'', [''p'', ''a'']),
                 (''s2'', [''a'', ''a'']), (''s2.1'', [''a'', ''p''])]\<rparr>"

definition sample_block_three :: "string frame" where
  "sample_block_three =
     \<lparr>index = [''rs1''],
      columns = [(''s1'', [''A'']), (''s1.1'', [''G'']),
                 (''s2'', [''G'']), (''s2.1'', [''T''])]\<rparr>"

definition sample_block_one :: "string frame" where
  "sample_block_one =
     \<lparr>index = [''rs2''],
      columns = [(''s1'', [''C'']), (''s1.1'', [''C'']),
                 (''s2'', [''C'']), (''s2.1'', [''C''])]\<rparr>"

definition sample_block_rare :: "string frame" where
  "sample_block_rare =
     \<lparr>index = [''rs3''],
      columns = concat (map (\<lambda>s. [(s, [''T'']),
                                   (s @ ''.1'', [if s = ''aa'' then ''A'' else ''T''])])
                         (map (\<lambda>(a, b). [a, b]) (List.product ''abcde'' ''abcdefghij'')))\<rparr>"

definition sample_block_dotted :: "string frame" where
  "sample_block_dotted =
     \<lparr>index = [''AA_A_9_100_F'', ''AA_A_9_100_Y''],
      columns = [(''f.a'', [''A'', ''A'']), (''f.a.1'', [''A'', ''T'']),
                 (''f.b'', [''A'', ''A'']), (''f.b.1'', [''T'', ''A''])]\<rparr>"

subsection \<open>Auxiliary notions of the proofs\<close>

text \<open>The count a list of \<open>Counter\<close> items gives a key, \<open>0\<close> for a key it lacks.\<close>

definition count_of :: "('a \<times> nat) list \<Rightarrow> 'a \<Rightarrow> nat" where
  "count_of kvs k = (case map_of kvs k of None \<Rightarrow> 0 | Some n \<Rightarrow> n)"

text \<open>A block of hard calls: rectangular, with one character in every cell.\<close>

definition hardcall_block :: "string frame \<Rightarrow> bool" where
  "hardcall_block aa_df =
     list_all (\<lambda>c. length (snd c) = length (index aa_df) \<and>
                    list_all (\<lambda>s. length s = 1) (snd c)) (columns aa_df)"

section \<open>Properties of \<open>checkAAblock\<close>\<close>

lemma Counter_add_keys:
  "map fst (Counter_add x kvs) = (if x \<in> fst ` set kvs then map fst kvs else map fst kvs @ [x])"
  by (induction x kvs rule: Counter_add.induct) auto

lemma Counter_add_distinct:
  "distinct (map fst kvs) \<Longrightarrow> distinct (map fst (Counter_add x kvs))"
  by (simp add: Counter_add_keys)

lemma Counter_add_count:
  "count_of (Counter_add x kvs) k = count_of kvs k + (if k = x then 1 else 0)"
  by (induction x kvs rule: Counter_add.induct) (auto simp: count_of_def)

lemma fold_Counter_add:
  "distinct (map fst acc) \<Longrightarrow>
   distinct (map fst (fold Counter_add xs acc)) \<and>
   fst ` set (fold Counter_add xs acc) = fst ` set acc \<union> set xs \<and>
   (\<forall>k. count_of (fold Counter_add xs acc) k = count_of acc k + count_list xs k)"
proof (induction xs arbitrary: acc)
  case Nil
  then show ?case by simp
next
  case (Cons x xs)
  have d: "distinct (map fst (Counter_add x acc))"
    using Cons.prems by (rule Counter_add_distinct)
  have s: "fst ` set (Counter_add x acc) = insert x (fst ` set acc)"
    using Counter_add_keys [of x acc] by (metis (no_types, lifting) Un_insert_right insert_absorb list.set(1,2) list.set_map set_append sup_bot.right_neutral)
  show ?case
    using Cons.IH [OF d] s by (auto simp: Counter_add_count)
qed

lemma Counter_items:
  "distinct (map fst (Counter xs))"
  "fst ` set (Counter xs) = set xs"
  "(k, n) \<in> set (Counter xs) \<Longrightarrow> n = count_list xs k"
proof -
  have f: "distinct (map fst (Counter xs)) \<and> fst ` set (Counter xs) = set xs \<and>
   (\<forall>k. count_of (Counter xs) k = count_list xs k)"
    using fold_Counter_add [of "[]" xs] by (simp add: Counter_def count_of_def)
  show d: "distinct (map fst (Counter xs))" using f by simp
  show "fst ` set (Counter xs) = set xs" using f by simp
  assume "(k, n) \<in> set (Counter xs)"
  then have "map_of (Counter xs) k = Some n" using d by simp
  then have "count_of (Counter xs) k = n" by (simp add: count_of_def)
  then show "n = count_list xs k" using f by (simp add: count_of_def)
qed


lemma sorted_by_count_Counter:
  assumes "sorted_by_count (Counter xs) = s"
  shows "distinct (map fst s)"
    and "fst ` set s = set xs"
    and "(k, n) \<in> set s \<Longrightarrow> n = count_list xs k"
    and "sorted (map (\<lambda>item. - int (snd item)) s)"
proof -
  have e: "set s = set (Counter xs)"
    using assms by (auto simp: sorted_by_count_def)
  have "distinct s"
    using assms Counter_items(1) [of xs] by (auto simp: sorted_by_count_def distinct_map)
  then show "distinct (map fst s)"
    using Counter_items(1) [of xs] e by (simp add: distinct_map)
  show "fst ` set s = set xs" using e Counter_items(2) [of xs] by simp
  show "(k, n) \<in> set s \<Longrightarrow> n = count_list xs k" using e Counter_items(3) [of k n xs] by simp
  show "sorted (map (\<lambda>item. - int (snd item)) s)"
    using assms by (auto simp: sorted_by_count_def)
qed

lemma sorted_by_count_Nil:
  "sorted_by_count (Counter xs) = [] \<longleftrightarrow> xs = []"
  using sorted_by_count_Counter(2) [of xs "sorted_by_count (Counter xs)"]
  by (metis empty_set image_is_empty set_empty)

lemma sorted_by_count_top_two:
  assumes "sorted_by_count (Counter xs) = (k0, n0) # (k1, n1) # rest"
  shows "k0 \<noteq> k1" and "k0 \<in> set xs" and "k1 \<in> set xs"
    and "n0 = count_list xs k0" and "n1 = count_list xs k1"
    and "c \<in> set xs \<Longrightarrow> count_list xs c \<le> n0"
    and "c \<in> set xs \<Longrightarrow> c \<noteq> k0 \<Longrightarrow> count_list xs c \<le> n1"
proof -
  note f = sorted_by_count_Counter [OF assms]
  show "k0 \<noteq> k1" using f(1) by auto
  show "k0 \<in> set xs" using f(2) by force
  show "k1 \<in> set xs" using f(2) by force
  show "n0 = count_list xs k0" using f(3) [of k0 n0] by simp
  show "n1 = count_list xs k1" using f(3) [of k1 n1] by simp
  have le1: "n1 \<le> n0" using f(4) by simp
  have le: "\<And>k n. (k, n) \<in> set ((k1, n1) # rest) \<Longrightarrow> n \<le> n1"
    using f(4) by fastforce
  { assume c: "c \<in> set xs"
    then obtain n where n: "(c, n) \<in> set ((k0, n0) # (k1, n1) # rest)"
      using f(2) by force
    then have "n = count_list xs c" using f(3) by blast
    moreover have "n \<le> n0" using n le [of c n] le1 by auto
    ultimately show "count_list xs c \<le> n0" by simp
    assume "c \<noteq> k0"
    then have "(c, n) \<in> set ((k1, n1) # rest)" using n by auto
    then have "n \<le> n1" using le by blast
    then show "count_list xs c \<le> n1" using \<open>n = count_list xs c\<close> by simp
  }
qed

lemma sorted_by_count_single:
  assumes "set xs = {c}"
  shows "length (sorted_by_count (Counter xs)) = 1"
proof -
  define s where "s = sorted_by_count (Counter xs)"
  note f = sorted_by_count_Counter [OF s_def [symmetric]]
  have "set (map fst s) = {c}" using f(2) assms by simp
  then have "card (set (map fst s)) = 1" by simp
  then have "length (map fst s) = 1" using f(1) by (metis distinct_card)
  then show ?thesis by (simp add: s_def)
qed

lemma sorted_by_count_two:
  assumes "c \<in> set xs" "d \<in> set xs" "c \<noteq> d"
  shows "\<exists>k0 n0 k1 n1 rest. sorted_by_count (Counter xs) = (k0, n0) # (k1, n1) # rest"
proof -
  define s where "s = sorted_by_count (Counter xs)"
  note f = sorted_by_count_Counter [OF s_def [symmetric]]
  have "{c, d} \<subseteq> set (map fst s)" using f(2) assms by simp
  then have "card {c, d} \<le> card (set (map fst s))" by (intro card_mono) auto
  moreover have "card {c, d} = 2" using assms(3) by simp
  moreover have "card (set (map fst s)) = length (map fst s)" using f(1) by (rule distinct_card)
  ultimately have "2 \<le> length s" by simp
  then show ?thesis unfolding s_def [symmetric]
    by (cases s rule: list.exhaust; cases "tl s"; auto)
qed

lemma checkAAblock_two:
  "sorted_by_count (Counter (concat aablock)) = (k0, n0) # (k1, n1) # rest \<Longrightarrow>
   checkAAblock aablock = (if n0 \<noteq> n1 then Inr (Code [k0]) else Inr (Codes aablock))"
  by (simp add: checkAAblock_def)

lemma checkAAblock_majority:
  assumes c: "c \<in> set (concat aablock)"
    and d: "d \<in> set (concat aablock)" "d \<noteq> c"
    and m: "\<And>d. d \<in> set (concat aablock) \<Longrightarrow> d \<noteq> c \<Longrightarrow>
           count_list (concat aablock) d < count_list (concat aablock) c"
  shows "checkAAblock aablock = Inr (Code [c])"
proof -
  let ?xs = "concat aablock"
  obtain k0 n0 k1 n1 rest where s: "sorted_by_count (Counter ?xs) = (k0, n0) # (k1, n1) # rest"
    using sorted_by_count_two [OF c d(1)] d(2) by blast
  note t = sorted_by_count_top_two [OF s]
  have k0: "k0 = c"
  proof (rule ccontr)
    assume "k0 \<noteq> c"
    then have "count_list ?xs k0 < count_list ?xs c" using m [OF t(2)] by simp
    moreover have "count_list ?xs c \<le> n0" using c by (rule t(6))
    ultimately show False using t(4) by simp
  qed
  have "k1 \<noteq> c" using t(1) k0 by simp
  then have "count_list ?xs k1 < count_list ?xs c" using m [OF t(3)] by simp
  then have "n1 \<noteq> n0" using t(4) t(5) k0 by simp
  then show ?thesis using checkAAblock_two [OF s] k0 by simp
qed

lemma checkAAblock_tie:
  assumes c: "c \<in> set (concat aablock)" and d: "d \<in> set (concat aablock)" and n: "c \<noteq> d"
    and e: "count_list (concat aablock) c = count_list (concat aablock) d"
    and m: "\<And>e. e \<in> set (concat aablock) \<Longrightarrow>
           count_list (concat aablock) e \<le> count_list (concat aablock) c"
  shows "checkAAblock aablock = Inr (Codes aablock)"
proof -
  let ?xs = "concat aablock"
  obtain k0 n0 k1 n1 rest where s: "sorted_by_count (Counter ?xs) = (k0, n0) # (k1, n1) # rest"
    using sorted_by_count_two [OF c d n] by blast
  note t = sorted_by_count_top_two [OF s]
  have "count_list ?xs c \<le> n0" using c by (rule t(6))
  moreover have "n0 \<le> count_list ?xs c" using m [OF t(2)] t(4) by simp
  ultimately have n0: "n0 = count_list ?xs c" by simp
  have "\<exists>e. e \<in> set ?xs \<and> e \<noteq> k0 \<and> count_list ?xs e = count_list ?xs c"
  proof (cases "c = k0")
    case True
    then show ?thesis using d n e by auto
  next
    case False
    then show ?thesis using c by auto
  qed
  then obtain e where e: "e \<in> set ?xs" "e \<noteq> k0" "count_list ?xs e = count_list ?xs c"
    by blast
  have "count_list ?xs e \<le> n1" using e(1) e(2) by (rule t(7))
  moreover have "n1 \<le> count_list ?xs c" using m [OF t(3)] t(5) by simp
  ultimately have "n1 = count_list ?xs c" using e(3) by simp
  then show ?thesis using checkAAblock_two [OF s] n0 by simp
qed

text \<open>
  Claim C3, as the code has it. For every block of codes, with the letters of all its
  codes counted: when one letter's count strictly exceeds every other letter's and there
  is another letter, \<open>checkAAblock\<close> returns that letter; when two different letters
  share the highest count, it returns the block unchanged; when only one letter occurs at
  all, it returns the first code of the block (not the block); and when no letter occurs,
  as in the empty block, it returns the empty string.
\<close>

theorem checkAAblock_cases:
  "(\<forall>c. c \<in> set (concat aablock) \<and> (\<exists>d \<in> set (concat aablock). d \<noteq> c) \<and>
        (\<forall>d \<in> set (concat aablock). d \<noteq> c \<longrightarrow>
           count_list (concat aablock) d < count_list (concat aablock) c)
        \<longrightarrow> checkAAblock aablock = Inr (Code [c])) \<and>
   (\<forall>c d. c \<in> set (concat aablock) \<and> d \<in> set (concat aablock) \<and> c \<noteq> d \<and>
        count_list (concat aablock) c = count_list (concat aablock) d \<and>
        (\<forall>e \<in> set (concat aablock). count_list (concat aablock) e \<le> count_list (concat aablock) c)
        \<longrightarrow> checkAAblock aablock = Inr (Codes aablock)) \<and>
   (\<forall>c. set (concat aablock) = {c}
        \<longrightarrow> (\<exists>b0 bs. aablock = b0 # bs \<and> checkAAblock aablock = Inr (Code b0))) \<and>
   (concat aablock = [] \<longrightarrow> checkAAblock aablock = Inr (Code ''''))"
proof (intro conjI allI impI)
  fix c
  assume a: "c \<in> set (concat aablock) \<and> (\<exists>d \<in> set (concat aablock). d \<noteq> c) \<and>
        (\<forall>d \<in> set (concat aablock). d \<noteq> c \<longrightarrow>
           count_list (concat aablock) d < count_list (concat aablock) c)"
  then obtain d where d: "d \<in> set (concat aablock)" "d \<noteq> c" by blast
  from a have c: "c \<in> set (concat aablock)" by blast
  from a have m: "\<And>d. d \<in> set (concat aablock) \<Longrightarrow> d \<noteq> c \<Longrightarrow>
           count_list (concat aablock) d < count_list (concat aablock) c" by blast
  show "checkAAblock aablock = Inr (Code [c])"
    using c d m by (rule checkAAblock_majority)
next
  fix c d
  assume a: "c \<in> set (concat aablock) \<and> d \<in> set (concat aablock) \<and> c \<noteq> d \<and>
        count_list (concat aablock) c = count_list (concat aablock) d \<and>
        (\<forall>e \<in> set (concat aablock). count_list (concat aablock) e \<le> count_list (concat aablock) c)"
  from a have c: "c \<in> set (concat aablock)" and d: "d \<in> set (concat aablock)"
    and n: "c \<noteq> d"
    and e: "count_list (concat aablock) c = count_list (concat aablock) d" by blast+
  from a have m: "\<And>e. e \<in> set (concat aablock) \<Longrightarrow>
           count_list (concat aablock) e \<le> count_list (concat aablock) c" by blast
  show "checkAAblock aablock = Inr (Codes aablock)"
    using c d n e m by (rule checkAAblock_tie)
next
  fix c
  assume a: "set (concat aablock) = {c}"
  then have l: "length (sorted_by_count (Counter (concat aablock))) = 1"
    by (rule sorted_by_count_single)
  from a have "aablock \<noteq> []" by auto
  then obtain b0 bs where "aablock = b0 # bs" by (cases aablock) auto
  then show "\<exists>b0 bs. aablock = b0 # bs \<and> checkAAblock aablock = Inr (Code b0)"
    using l by (simp add: checkAAblock_def)
next
  assume "concat aablock = []"
  then have "sorted_by_count (Counter (concat aablock)) = []"
    by (simp add: sorted_by_count_Nil)
  then show "checkAAblock aablock = Inr (Code '''')"
    by (simp add: checkAAblock_def)
qed

theorem checkAAblock_cases_witness:
  "checkAAblock [''FY'', ''FS'', ''FK''] = Inr (Code ''F'') \<and>
   checkAAblock [''F'', ''Y''] = Inr (Codes [''F'', ''Y'']) \<and>
   checkAAblock [''F'', ''F''] = Inr (Code ''F'') \<and>
   checkAAblock [] = Inr (Code '''')"
proof (intro conjI)
  let ?b = "[''FY'', ''FS'', ''FK'']"
  have h: "CHR ''F'' \<in> set (concat ?b) \<and> (\<exists>d \<in> set (concat ?b). d \<noteq> CHR ''F'') \<and>
        (\<forall>d \<in> set (concat ?b). d \<noteq> CHR ''F'' \<longrightarrow>
           count_list (concat ?b) d < count_list (concat ?b) (CHR ''F''))"
    by simp
  show "checkAAblock ?b = Inr (Code ''F'')"
    using checkAAblock_cases [of ?b, THEN conjunct1, rule_format, of "CHR ''F''", OF h] .
next
  let ?b = "[''F'', ''Y'']"
  have h: "CHR ''F'' \<in> set (concat ?b) \<and> CHR ''Y'' \<in> set (concat ?b) \<and> CHR ''F'' \<noteq> CHR ''Y'' \<and>
        count_list (concat ?b) (CHR ''F'') = count_list (concat ?b) (CHR ''Y'') \<and>
        (\<forall>e \<in> set (concat ?b). count_list (concat ?b) e \<le> count_list (concat ?b) (CHR ''F''))"
    by simp
  show "checkAAblock ?b = Inr (Codes ?b)"
    using checkAAblock_cases [of ?b, THEN conjunct2, THEN conjunct1, rule_format,
        of "CHR ''F''" "CHR ''Y''", OF h] .
next
  let ?b = "[''F'', ''F'']"
  have h: "set (concat ?b) = {CHR ''F''}" by simp
  show "checkAAblock ?b = Inr (Code ''F'')"
    using checkAAblock_cases [of ?b, THEN conjunct2, THEN conjunct2, THEN conjunct1,
        rule_format, of "CHR ''F''", OF h] by simp
next
  have h: "concat ([] :: string list) = []" by simp
  show "checkAAblock [] = Inr (Code '''')"
    using checkAAblock_cases [of "[]", THEN conjunct2, THEN conjunct2, THEN conjunct2,
        rule_format, OF h] .
qed

theorem checkAAblock_single_letter_counterexample:
  "set (concat [''F'', ''F'']) = {CHR ''F''} \<and>
   checkAAblock [''F'', ''F''] = Inr (Code ''F'') \<and>
   checkAAblock [''F'', ''F''] \<noteq> Inr (Codes [''F'', ''F''])"
  by (simp add: checkAAblock_def Counter_def sorted_by_count_def)

section \<open>Frames\<close>

lemma argmax_from_bounds:
  "best_i < i \<Longrightarrow> argmax_from xs i best_i best < i + length xs"
proof (induction xs i best_i best rule: argmax_from.induct)
  case (1 i best_i best)
  then show ?case by simp
next
  case (2 x xs i best_i best)
  show ?case
  proof (cases "best < x")
    case True
    then have "argmax_from xs (Suc i) i x < Suc i + length xs" using "2.IH"(1) by simp
    then show ?thesis using True by simp
  next
    case False
    then have "argmax_from xs (Suc i) best_i best < Suc i + length xs"
      using "2.IH"(2) "2.prems" by simp
    then show ?thesis using False by simp
  qed
qed

lemma argmax_from_max:
  assumes "best_i < i" and "length pre = i" and "pre ! best_i = best"
    and "\<forall>x \<in> set pre. x \<le> best"
  shows "\<forall>x \<in> set (pre @ xs). x \<le> (pre @ xs) ! argmax_from xs i best_i best"
  using assms
proof (induction xs arbitrary: i best_i best pre)
  case Nil
  then show ?case by simp
next
  case (Cons x xs)
  show ?case
  proof (cases "best < x")
    case True
    have "\<forall>y \<in> set ((pre @ [x]) @ xs). y \<le> ((pre @ [x]) @ xs) ! argmax_from xs (Suc i) i x"
    proof (rule Cons.IH)
      show "i < Suc i" by simp
      show "length (pre @ [x]) = Suc i" using Cons.prems by simp
      show "(pre @ [x]) ! i = x" using Cons.prems by (simp add: nth_append)
      show "\<forall>y \<in> set (pre @ [x]). y \<le> x" using Cons.prems True by auto
    qed
    then show ?thesis using True by simp
  next
    case False
    have "\<forall>y \<in> set ((pre @ [x]) @ xs). y \<le> ((pre @ [x]) @ xs) ! argmax_from xs (Suc i) best_i best"
    proof (rule Cons.IH)
      show "best_i < Suc i" using Cons.prems by simp
      show "length (pre @ [x]) = Suc i" using Cons.prems by simp
      show "(pre @ [x]) ! best_i = best" using Cons.prems by (simp add: nth_append)
      show "\<forall>y \<in> set (pre @ [x]). y \<le> best" using Cons.prems False by auto
    qed
    then show ?thesis using False by simp
  qed
qed

lemma argmax_Inr:
  assumes "xs \<noteq> []"
  shows "\<exists>i. argmax xs = Inr i \<and> i < length xs \<and> (\<forall>x \<in> set xs. x \<le> xs ! i)"
proof -
  obtain x rest where xs: "xs = x # rest" using assms by (cases xs) auto
  have b: "argmax_from rest 1 0 x < 1 + length rest"
    by (rule argmax_from_bounds) simp
  have "\<forall>y \<in> set ([x] @ rest). y \<le> ([x] @ rest) ! argmax_from rest 1 0 x"
    by (rule argmax_from_max) simp_all
  then show ?thesis using b by (simp add: xs argmax_def)
qed

lemma select_filter_distinct:
  assumes "distinct (map fst cols)"
  shows "concat (map (\<lambda>l. filter (\<lambda>c. fst c = l) cols) (map fst (filter P cols)))
         = filter P cols"
proof -
  have one: "filter (\<lambda>c. fst c = fst c0) cols = [c0]" if "c0 \<in> set cols" for c0
    using assms that
  proof (induction cols)
    case Nil
    then show ?case by simp
  next
    case (Cons a cols)
    show ?case
    proof (cases "a = c0")
      case True
      have "fst c0 \<notin> fst ` set cols"
        using Cons.prems(1) True by simp
      then have "\<forall>c \<in> set cols. fst c \<noteq> fst c0"
        by (metis imageI)
      then have "filter (\<lambda>c. fst c = fst c0) cols = []"
        by (simp add: filter_empty_conv)
      then show ?thesis using True by simp
    next
      case False
      then have "c0 \<in> set cols" using Cons.prems by simp
      moreover have "fst a \<noteq> fst c0" using Cons.prems(1) \<open>c0 \<in> set cols\<close> by force
      ultimately show ?thesis using Cons by simp
    qed
  qed
  have "concat (map (\<lambda>l. filter (\<lambda>c. fst c = l) cols) (map fst ys)) = ys"
    if "set ys \<subseteq> set cols" for ys
    using that by (induction ys) (simp_all add: one)
  then show ?thesis by simp
qed

lemma select_columns_filter:
  assumes "distinct (column_labels df)"
  shows "select_columns df (map fst (filter P (columns df)))
         = Inr (df\<lparr>columns := filter P (columns df)\<rparr>)"
proof -
  have l: "list_all (\<lambda>l. l \<in> set (column_labels df)) (map fst (filter P (columns df)))"
    by (auto simp: list_all_iff column_labels_def)
  have c: "concat (map (\<lambda>l. filter (\<lambda>c. fst c = l) (columns df))
                    (map fst (filter P (columns df)))) = filter P (columns df)"
    using assms by (intro select_filter_distinct) (simp add: column_labels_def)
  show ?thesis
    by (simp only: select_columns_def l c if_True)
qed

lemma sort_index_sorted:
  assumes "sorted (index df)" and "\<forall>c \<in> set (columns df). length (snd c) = length (index df)"
  shows "sort_index df = df"
proof -
  have "map snd (sort_key fst (zip (index df) (snd c))) = snd c" if "c \<in> set (columns df)" for c
  proof -
    have l: "length (snd c) = length (index df)" using assms(2) that by simp
    then have "map fst (zip (index df) (snd c)) = index df" by simp
    then have "sort_key fst (zip (index df) (snd c)) = zip (index df) (snd c)"
      using assms(1) by (simp add: sort_key_id_if_sorted)
    then show ?thesis using l by simp
  qed
  then have "map (\<lambda>c. (fst c, map snd (sort_key fst (zip (index df) (snd c))))) (columns df)
             = columns df"
    by (simp add: map_idI)
  moreover have "sort (index df) = index df"
    using assms(1) by (simp add: sort_key_id_if_sorted)
  ultimately show ?thesis by (simp add: sort_index_def)
qed

section \<open>The count matrix of \<open>makehaplodf\<close>\<close>

lemma groupby_size_unstack_index:
  "index (groupby_size_unstack rows) = sort (remdups (map fst rows))"
  by (simp add: groupby_size_unstack_def Let_def)

lemma groupby_size_unstack_labels:
  "column_labels (groupby_size_unstack rows) = sort (remdups (map snd rows))"
  by (simp add: groupby_size_unstack_def Let_def column_labels_def comp_def)

lemma groupby_size_unstack_wf:
  "sorted (index (groupby_size_unstack rows))"
  "distinct (index (groupby_size_unstack rows))"
  "distinct (column_labels (groupby_size_unstack rows))"
  "\<forall>c \<in> set (columns (groupby_size_unstack rows)).
      length (snd c) = length (index (groupby_size_unstack rows))"
  by (simp_all add: groupby_size_unstack_index groupby_size_unstack_labels)
     (simp add: groupby_size_unstack_def Let_def)

lemma makehaplodf_frame:
  assumes "makehaplodf aa_df basicQC = Inr (df, aminoacids)"
  shows "df = (if basicQC
               then (groupby_size_unstack (haplo_rows aa_df))\<lparr>columns :=
                      filter (highfreq (groupby_size_unstack (haplo_rows aa_df)))
                        (columns (groupby_size_unstack (haplo_rows aa_df)))\<rparr>
               else groupby_size_unstack (haplo_rows aa_df))"
proof -
  let ?df0 = "groupby_size_unstack (haplo_rows aa_df)"
  let ?df1 = "?df0\<lparr>columns := filter (highfreq ?df0) (columns ?df0)\<rparr>"
  have s: "select_columns ?df0 (map fst (filter (highfreq ?df0) (columns ?df0))) = Inr ?df1"
    by (rule select_columns_filter) (rule groupby_size_unstack_wf)
  have i0: "sort_index ?df0 = ?df0"
    by (rule sort_index_sorted) (rule groupby_size_unstack_wf)+
  have i1: "sort_index ?df1 = ?df1"
    by (rule sort_index_sorted) (use groupby_size_unstack_wf [of "haplo_rows aa_df"] in auto)
  show ?thesis
  proof (cases basicQC)
    case True
    then show ?thesis
      using assms s i1 by (auto simp: makehaplodf_def Let_def split: sum.splits)
  next
    case False
    then show ?thesis
      using assms i0 by (auto simp: makehaplodf_def Let_def split: sum.splits)
  qed
qed

lemma count_rows_sum:
  assumes "finite A" and "fst ` set rows \<subseteq> A"
  shows "(\<Sum>i\<in>A. count_list rows (i, l)) = count_list (map snd rows) l"
  using assms(2)
proof (induction rows)
  case Nil
  then show ?case by simp
next
  case (Cons r rows)
  obtain a b where r: "r = (a, b)" by (cases r)
  have a: "a \<in> A" using Cons.prems r by simp
  have "(\<Sum>i\<in>A. count_list (r # rows) (i, l))
        = (\<Sum>i\<in>A. count_list rows (i, l) + (if a = i \<and> b = l then 1 else 0))"
    by (intro sum.cong) (auto simp: r)
  also have "\<dots> = (\<Sum>i\<in>A. count_list rows (i, l)) + (\<Sum>i\<in>A. if a = i \<and> b = l then 1 else 0)"
    by (rule sum.distrib)
  also have "(\<Sum>i\<in>A. if a = i \<and> b = l then 1 else 0) = (if b = l then 1 else (0::nat))"
    using assms(1) a by (cases "b = l") simp_all
  also have "(\<Sum>i\<in>A. count_list rows (i, l)) = count_list (map snd rows) l"
    using Cons by simp
  finally show ?case by (simp add: r)
qed

lemma groupby_size_unstack_column_total:
  assumes "c \<in> set (columns (groupby_size_unstack rows))"
  shows "sum_list (snd c) = count_list (map snd rows) (fst c)"
proof -
  let ?idx = "sort (remdups (map fst rows))"
  from assms have c: "snd c = map (\<lambda>i. count_list rows (i, fst c)) ?idx"
    by (auto simp: groupby_size_unstack_def Let_def)
  have "sum_list (snd c) = (\<Sum>i\<in>set ?idx. count_list rows (i, fst c))"
    unfolding c by (rule sum_list_distinct_conv_sum_set) simp
  also have "\<dots> = count_list (map snd rows) (fst c)"
    by (rule count_rows_sum) simp_all
  finally show ?thesis .
qed

lemma groupby_size_unstack_total:
  "sum_list (column_sums (groupby_size_unstack rows)) = length rows"
proof -
  let ?df = "groupby_size_unstack rows"
  let ?labels = "sort (remdups (map snd rows))"
  have "column_sums ?df = map (\<lambda>l. count_list (map snd rows) l) ?labels"
  proof -
    have "map (\<lambda>c. sum_list (snd c)) (columns ?df)
          = map (\<lambda>c. count_list (map snd rows) (fst c)) (columns ?df)"
      by (intro map_cong refl) (rule groupby_size_unstack_column_total)
    also have "\<dots> = map (\<lambda>l. count_list (map snd rows) l) (column_labels ?df)"
      by (simp add: column_labels_def comp_def)
    finally show ?thesis
      by (simp add: column_sums_def groupby_size_unstack_labels)
  qed
  then have "sum_list (column_sums ?df) = (\<Sum>l\<in>set ?labels. count_list (map snd rows) l)"
    by (simp add: sum_list_distinct_conv_sum_set)
  also have "\<dots> = length (map snd rows)"
    by (intro sum_count_set) simp_all
  finally show ?thesis by simp
qed

lemma groupby_size_unstack_shape0:
  "shape0 (groupby_size_unstack rows) = card (fst ` set rows)"
  by (simp add: shape0_def groupby_size_unstack_index length_remdups_card_conv)

lemma sum_list_divide:
  "(\<Sum>c\<leftarrow>cols. real (f c) / k) = real (\<Sum>c\<leftarrow>cols. f c) / k"
  by (induction cols) (simp_all add: add_divide_distrib)

lemma checkAAblock_returns: "\<exists>r. checkAAblock aablock = Inr r"
proof (cases aablock)
  case Nil
  then show ?thesis by (simp add: checkAAblock_def Counter_def sorted_by_count_def)
next
  case (Cons b bs)
  then show ?thesis
    by (auto simp: checkAAblock_def Let_def split: list.splits)
qed

lemma take_indices_presence:
  assumes "length haplo \<le> length residues"
  shows "\<exists>block. take_indices residues (presence haplo) = Inr block"
  using assms by (auto simp: take_indices_def presence_def list_all_iff)

lemma get_aminoacids_loop_returns:
  assumes "\<forall>x \<in> set haplotypes. length x \<le> length residues"
  shows "\<exists>r. get_aminoacids_loop residues haplotypes aablocks = Inr r"
  using assms
proof (induction haplotypes arbitrary: aablocks)
  case Nil
  then show ?case by simp
next
  case (Cons x haplotypes)
  obtain block where b: "take_indices residues (presence x) = Inr block"
    using take_indices_presence [of x residues] Cons.prems by auto
  obtain block' where c: "checkAAblock block = Inr block'"
    using checkAAblock_returns by blast
  show ?case using Cons b c by simp
qed

lemma concat_single_chars:
  "list_all (\<lambda>s. length s = 1) xs \<Longrightarrow> length (concat xs) = length xs"
  by (induction xs) simp_all

text \<open>
  On a block of hard calls (one character in every cell) \<open>makehaplodf\<close> raises nothing:
  a label is as long as the block has rows, so every presence position is a row.
\<close>

lemma makehaplodf_returns:
  assumes "hardcall_block aa_df"
  shows "\<exists>df aminoacids. makehaplodf aa_df basicQC = Inr (df, aminoacids)"
proof -
  let ?df0 = "groupby_size_unstack (haplo_rows aa_df)"
  let ?df1 = "?df0\<lparr>columns := filter (highfreq ?df0) (columns ?df0)\<rparr>"
  have s: "select_columns ?df0 (map fst (filter (highfreq ?df0) (columns ?df0))) = Inr ?df1"
    by (rule select_columns_filter) (rule groupby_size_unstack_wf)
  have len: "length l \<le> length (map residue (index aa_df))"
    if "l \<in> set (column_labels ?df0)" for l
  proof -
    from that have "l \<in> snd ` set (haplo_rows aa_df)"
      by (simp add: groupby_size_unstack_labels)
    then obtain c where c: "c \<in> set (columns aa_df)" "l = concat (snd c)"
      by (auto simp: haplo_rows_def)
    with assms have "length (snd c) = length (index aa_df)"
      and "list_all (\<lambda>s. length s = 1) (snd c)"
      by (auto simp: hardcall_block_def list_all_iff)
    then show ?thesis using c(2) by (simp add: concat_single_chars)
  qed
  have l0: "\<forall>x \<in> set (column_labels ?df0). length x \<le> length (map residue (index aa_df))"
    using len by blast
  have l1: "\<forall>x \<in> set (column_labels ?df1). length x \<le> length (map residue (index aa_df))"
    using len by (auto simp: column_labels_def)
  show ?thesis
  proof (cases basicQC)
    case True
    obtain r where "get_aminoacids (index aa_df) (column_labels ?df1) = Inr r"
      using get_aminoacids_loop_returns [OF l1] by (auto simp: get_aminoacids_def)
    then show ?thesis using True s by (simp add: makehaplodf_def Let_def)
  next
    case False
    obtain r where "get_aminoacids (index aa_df) (column_labels ?df0) = Inr r"
      using get_aminoacids_loop_returns [OF l0] by (auto simp: get_aminoacids_def)
    then show ?thesis using False by (simp add: makehaplodf_def Let_def)
  qed
qed

section \<open>The frequency floor and the mass of \<open>makehaplodf\<close>\<close>

text \<open>
  Claim C4. With \<open>basicQC\<close>, the columns \<open>makehaplodf\<close> returns are exactly the columns
  of the count matrix whose total, divided by twice the number of base samples, is
  strictly above 0.01, in the same order and over the same rows; a column at or below
  1% is dropped. The total of a column is the number of sample copies that carry its
  label, and the number of rows is the number of base sample identifiers.
\<close>

theorem makehaplodf_basicQC_floor:
  assumes "makehaplodf aa_df True = Inr (df, aminoacids)"
  shows "index df = index (groupby_size_unstack (haplo_rows aa_df)) \<and>
         columns df =
           filter (\<lambda>c. 0.01 < real (sum_list (snd c))
                           / (2 * real (card (fst ` set (haplo_rows aa_df)))))
             (columns (groupby_size_unstack (haplo_rows aa_df))) \<and>
         (\<forall>c \<in> set (columns (groupby_size_unstack (haplo_rows aa_df))).
            (c \<in> set (columns df)
               \<longleftrightarrow> 0.01 < real (sum_list (snd c))
                            / (2 * real (card (fst ` set (haplo_rows aa_df))))) \<and>
            sum_list (snd c) = count_list (map snd (haplo_rows aa_df)) (fst c)) \<and>
         shape0 df = card (fst ` set (haplo_rows aa_df))"
proof -
  let ?df0 = "groupby_size_unstack (haplo_rows aa_df)"
  have df: "df = ?df0\<lparr>columns := filter (highfreq ?df0) (columns ?df0)\<rparr>"
    using makehaplodf_frame [OF assms] by simp
  have h: "highfreq ?df0 c
           \<longleftrightarrow> 0.01 < real (sum_list (snd c)) / (2 * real (card (fst ` set (haplo_rows aa_df))))"
    for c
    by (simp add: highfreq_def groupby_size_unstack_shape0)
  have c: "columns df =
           filter (\<lambda>c. 0.01 < real (sum_list (snd c))
                           / (2 * real (card (fst ` set (haplo_rows aa_df)))))
             (columns ?df0)"
  proof -
    have "columns df = filter (highfreq ?df0) (columns ?df0)" by (simp add: df)
    also have "\<dots> = filter (\<lambda>c. 0.01 < real (sum_list (snd c))
                           / (2 * real (card (fst ` set (haplo_rows aa_df)))))
             (columns ?df0)"
      by (rule filter_cong [OF refl]) (rule h)
    finally show ?thesis .
  qed
  show ?thesis
  proof (intro conjI ballI)
    show "index df = index ?df0" by (simp add: df)
    show "columns df =
           filter (\<lambda>c. 0.01 < real (sum_list (snd c))
                           / (2 * real (card (fst ` set (haplo_rows aa_df)))))
             (columns ?df0)"
      by (rule c)
    show "shape0 df = card (fst ` set (haplo_rows aa_df))"
      using groupby_size_unstack_shape0 [of "haplo_rows aa_df"] by (simp add: df shape0_def)
  next
    fix c assume "c \<in> set (columns ?df0)"
    then show "c \<in> set (columns df)
               \<longleftrightarrow> 0.01 < real (sum_list (snd c))
                            / (2 * real (card (fst ` set (haplo_rows aa_df))))"
      by (simp add: c)
    show "sum_list (snd c) = count_list (map snd (haplo_rows aa_df)) (fst c)"
      using \<open>c \<in> set (columns ?df0)\<close> by (rule groupby_size_unstack_column_total)
  qed
qed

lemma makehaplodf_sample_block_rare:
  "makehaplodf sample_block_rare True =
     Inr (\<lparr>index = map (\<lambda>(a, b). [a, b]) (List.product ''abcde'' ''abcdefghij''),
           columns = [(''T'', 1 # replicate 49 2)]\<rparr>, [Codes [''rs3'']])"
  by code_simp

lemma groupby_sample_block_rare:
  "groupby_size_unstack (haplo_rows sample_block_rare) =
     \<lparr>index = map (\<lambda>(a, b). [a, b]) (List.product ''abcde'' ''abcdefghij''),
      columns = [(''A'', 1 # replicate 49 0), (''T'', 1 # replicate 49 2)]\<rparr>"
  by code_simp

theorem makehaplodf_basicQC_floor_witness:
  "makehaplodf sample_block_rare True =
     Inr (\<lparr>index = map (\<lambda>(a, b). [a, b]) (List.product ''abcde'' ''abcdefghij''),
           columns = [(''T'', 1 # replicate 49 2)]\<rparr>, [Codes [''rs3'']]) \<and>
   columns (groupby_size_unstack (haplo_rows sample_block_rare)) =
     [(''A'', 1 # replicate 49 0), (''T'', 1 # replicate 49 2)] \<and>
   card (fst ` set (haplo_rows sample_block_rare)) = 50 \<and>
   [(''T'', 1 # replicate 49 2)] =
     filter (\<lambda>c. 0.01 < real (sum_list (snd c))
                     / (2 * real (card (fst ` set (haplo_rows sample_block_rare)))))
       (columns (groupby_size_unstack (haplo_rows sample_block_rare))) \<and>
   \<not> (0.01 < real (sum_list (1 # replicate 49 0)) / (2 * real 50)) \<and>
   0.01 < real (sum_list (1 # replicate 49 2)) / (2 * real 50)"
proof -
  note m = makehaplodf_sample_block_rare
  note t = makehaplodf_basicQC_floor [OF m]
  from t have "shape0 \<lparr>index = map (\<lambda>(a, b). [a, b]) (List.product ''abcde'' ''abcdefghij''),
           columns = [(''T'', 1 # replicate 49 (2::nat))]\<rparr>
          = card (fst ` set (haplo_rows sample_block_rare))"
    by blast
  then have c: "card (fst ` set (haplo_rows sample_block_rare)) = 50"
    by (simp add: shape0_def)
  have g: "columns (groupby_size_unstack (haplo_rows sample_block_rare)) =
     [(''A'', 1 # replicate 49 0), (''T'', 1 # replicate 49 2)]"
    by (simp add: groupby_sample_block_rare)
  from t have "columns \<lparr>index = map (\<lambda>(a, b). [a, b]) (List.product ''abcde'' ''abcdefghij''),
           columns = [(''T'', 1 # replicate 49 (2::nat))]\<rparr> =
     filter (\<lambda>c. 0.01 < real (sum_list (snd c))
                     / (2 * real (card (fst ` set (haplo_rows sample_block_rare)))))
       (columns (groupby_size_unstack (haplo_rows sample_block_rare)))"
    by blast
  then have f: "[(''T'', 1 # replicate 49 2)] =
     filter (\<lambda>c. 0.01 < real (sum_list (snd c))
                     / (2 * real (card (fst ` set (haplo_rows sample_block_rare)))))
       (columns (groupby_size_unstack (haplo_rows sample_block_rare)))"
    by simp
  have "\<not> (0.01 < real (sum_list (1 # replicate 49 0)) / (2 * real 50))"
    by (simp add: sum_list_replicate)
  moreover have "0.01 < real (sum_list (1 # replicate 49 2)) / (2 * real 50)"
    by (simp add: sum_list_replicate)
  ultimately show ?thesis using m c g f by blast
qed

subsection \<open>Samples and rows of the count matrix\<close>

text \<open>
  \<open>subsectionFam\<close> names the two copies of the sample \<open>x\<close> as \<open>x\<close> and \<open>x.1\<close>;
  \<open>makehaplodf\<close> names the row of a copy by its column name cut at the first \<open>"."\<close>.
  Cutting the name of the second copy gives what cutting the name of the first gives,
  which is the sample's identifier when it holds no \<open>"."\<close>.
\<close>

lemma base_id_copy: "base_id (x @ ''.1'') = base_id x"
proof (cases "CHR ''.'' \<in> set x")
  case True
  then show ?thesis by (simp add: base_id_def takeWhile_append1)
next
  case False
  then have a: "\<And>c. c \<in> set x \<Longrightarrow> c \<noteq> CHR ''.''" by auto
  then have t: "takeWhile (\<lambda>c. c \<noteq> CHR ''.'') x = x" by simp
  have "takeWhile (\<lambda>c. c \<noteq> CHR ''.'') (x @ ''.1'')
        = x @ takeWhile (\<lambda>c. c \<noteq> CHR ''.'') ''.1''"
    using a by (rule takeWhile_append2)
  then show ?thesis by (simp add: base_id_def t)
qed

lemma base_id_no_dot: "CHR ''.'' \<notin> set x \<Longrightarrow> base_id x = x"
  by (auto simp: base_id_def)

lemma copies_base_ids:
  "map base_id (concat (map (\<lambda>x. [x, x @ ''.1'']) samples))
   = concat (map (\<lambda>x. [base_id x, base_id x]) samples)"
  by (induction samples) (simp_all add: base_id_copy)

lemma copies_length:
  "length (concat (map (\<lambda>x. [f x, g x]) samples)) = 2 * length samples"
  by (induction samples) simp_all

lemma copies_set:
  "set (concat (map (\<lambda>x. [f x, f x]) samples)) = f ` set samples"
  by (induction samples) auto

lemma filter_eq_distinct:
  "distinct ks \<Longrightarrow> l \<in> set ks \<Longrightarrow> filter (\<lambda>k. k = l) ks = [l]"
proof (induction ks)
  case Nil
  then show ?case by simp
next
  case (Cons k ks)
  show ?case
  proof (cases "k = l")
    case True
    then have "l \<notin> set ks" using Cons.prems(1) by simp
    then have "filter (\<lambda>k. k = l) ks = []" by (auto simp: filter_empty_conv)
    then show ?thesis using True by simp
  next
    case False
    then show ?thesis using Cons by simp
  qed
qed

lemma select_columns_labels:
  assumes "select_columns df labels = Inr df'" and "distinct (column_labels df)"
  shows "column_labels df' = labels"
proof -
  from assms(1) have a: "list_all (\<lambda>l. l \<in> set (column_labels df)) labels"
    and c: "columns df' = concat (map (\<lambda>l. filter (\<lambda>c. fst c = l) (columns df)) labels)"
    by (auto simp: select_columns_def split: if_splits)
  have one: "map fst (filter (\<lambda>c. fst c = l) (columns df)) = [l]"
    if "l \<in> set (column_labels df)" for l
  proof -
    have "map fst (filter (\<lambda>c. fst c = l) (columns df))
          = filter (\<lambda>k. k = l) (column_labels df)"
      by (simp add: column_labels_def filter_map comp_def)
    then show ?thesis using filter_eq_distinct [OF assms(2) that] by simp
  qed
  have "map fst (concat (map (\<lambda>l. filter (\<lambda>c. fst c = l) (columns df)) ls)) = ls"
    if "list_all (\<lambda>l. l \<in> set (column_labels df)) ls" for ls
    using that by (induction ls) (simp_all add: one)
  from this [OF a] show ?thesis by (simp add: column_labels_def c)
qed

text \<open>
  The columns \<open>subsectionFam\<close> selects from hard-call data with distinct column names
  are the two copies \<open>x\<close> and \<open>x.1\<close> of each sample of the covariate table, in its order.
\<close>

lemma subsectionFam_hardcall_labels:
  assumes "subsectionFam df famfile ''hardcall'' = Inr df'" and "distinct (column_labels df)"
  shows "column_labels df' = concat (map (\<lambda>x. [x, x @ ''.1'']) (map IID famfile))"
proof -
  from assms(1) have
    "select_columns df (concat (map (\<lambda>r. [IID r, IID r @ ''.1'']) famfile)) = Inr df'"
    by (simp add: subsectionFam_def)
  from select_columns_labels [OF this assms(2)] show ?thesis
    by (simp add: comp_def)
qed

text \<open>
  Claim C5, on the code. Without \<open>basicQC\<close>, on a block whose columns are the two copies
  \<open>x\<close> and \<open>x.1\<close> of distinct samples, every copy is counted in exactly one label column
  and the entries of the matrix sum to twice the number of samples. The rows are the
  identifiers truncated at their first \<open>"."\<close>, so the entries sum to twice the number of
  rows, and the column totals divided by twice the number of rows sum to 1, exactly when
  no two samples share a truncated identifier, as when no identifier holds a \<open>"."\<close>.
  Samples that share one are counted in one row, and the fractions sum to the number of
  samples divided by the number of rows.
\<close>

theorem makehaplodf_mass_of_samples:
  assumes "makehaplodf aa_df False = Inr (df, aminoacids)"
    and "column_labels aa_df = concat (map (\<lambda>x. [x, x @ ''.1'']) samples)"
    and "distinct samples" and "samples \<noteq> []"
  shows "distinct (column_labels df) \<and>
         set (column_labels df) = snd ` set (haplo_rows aa_df) \<and>
         sum_list (column_sums df) = 2 * length samples \<and>
         set (index df) = base_id ` set samples \<and>
         shape0 df = card (base_id ` set samples) \<and>
         (\<Sum>c\<leftarrow>columns df. real (sum_list (snd c)) / (2 * real (shape0 df)))
           = real (length samples) / real (shape0 df) \<and>
         (sum_list (column_sums df) = 2 * shape0 df \<longleftrightarrow> inj_on base_id (set samples)) \<and>
         ((\<Sum>c\<leftarrow>columns df. real (sum_list (snd c)) / (2 * real (shape0 df))) = 1
            \<longleftrightarrow> inj_on base_id (set samples)) \<and>
         ((\<forall>x \<in> set samples. CHR ''.'' \<notin> set x) \<longrightarrow>
            index df = sort samples \<and>
            sum_list (column_sums df) = 2 * shape0 df \<and>
            (\<Sum>c\<leftarrow>columns df. real (sum_list (snd c)) / (2 * real (shape0 df))) = 1)"
proof -
  let ?rows = "haplo_rows aa_df"
  let ?n = "card (base_id ` set samples)"
  have df: "df = groupby_size_unstack ?rows"
    using makehaplodf_frame [OF assms(1)] by simp
  have ids: "map fst ?rows = concat (map (\<lambda>x. [base_id x, base_id x]) samples)"
  proof -
    have "map fst ?rows = map base_id (column_labels aa_df)"
      by (simp add: haplo_rows_def column_labels_def comp_def)
    then show ?thesis by (simp add: assms(2) copies_base_ids)
  qed
  have len: "length ?rows = 2 * length samples"
    using arg_cong [OF ids, of length] by (simp add: copies_length)
  have "set (map fst ?rows) = base_id ` set samples"
    unfolding ids by (rule copies_set)
  then have img: "fst ` set ?rows = base_id ` set samples" by simp
  have t: "sum_list (column_sums df) = 2 * length samples"
    by (simp add: df groupby_size_unstack_total len)
  have ix: "set (index df) = base_id ` set samples"
    using img by (simp add: df groupby_size_unstack_index)
  have n: "shape0 df = ?n"
    by (simp add: df groupby_size_unstack_shape0 img)
  have "set samples \<noteq> {}" using assms(4) by simp
  then have pos: "0 < ?n" by (simp add: card_gt_0_iff)
  have le: "?n \<le> length samples"
    using card_image_le [of "set samples" base_id] card_length [of samples] by simp
  have cs: "card (set samples) = length samples"
    using assms(3) by (rule distinct_card)
  have inj: "?n = length samples \<longleftrightarrow> inj_on base_id (set samples)"
    using cs by (metis List.finite_set card_image eq_card_imp_inj_on)
  have fr: "(\<Sum>c\<leftarrow>columns df. real (sum_list (snd c)) / (2 * real (shape0 df)))
            = real (length samples) / real (shape0 df)"
  proof -
    have "(\<Sum>c\<leftarrow>columns df. real (sum_list (snd c)) / (2 * real (shape0 df)))
          = real (sum_list (column_sums df)) / (2 * real (shape0 df))"
      by (simp add: sum_list_divide column_sums_def)
    then show ?thesis by (simp add: t)
  qed
  have s_iff: "sum_list (column_sums df) = 2 * shape0 df \<longleftrightarrow> inj_on base_id (set samples)"
    using inj by (auto simp: t n)
  have f_iff: "(\<Sum>c\<leftarrow>columns df. real (sum_list (snd c)) / (2 * real (shape0 df))) = 1
               \<longleftrightarrow> inj_on base_id (set samples)"
  proof -
    have "(\<Sum>c\<leftarrow>columns df. real (sum_list (snd c)) / (2 * real (shape0 df))) = 1
          \<longleftrightarrow> real (length samples) / real ?n = 1"
      by (subst fr) (simp only: n)
    also have "\<dots> \<longleftrightarrow> length samples = ?n" using pos assms(4) by auto
    also have "\<dots> \<longleftrightarrow> inj_on base_id (set samples)" using inj by auto
    finally show ?thesis .
  qed
  have nodot: "index df = sort samples \<and>
            sum_list (column_sums df) = 2 * shape0 df \<and>
            (\<Sum>c\<leftarrow>columns df. real (sum_list (snd c)) / (2 * real (shape0 df))) = 1"
    if d: "\<forall>x \<in> set samples. CHR ''.'' \<notin> set x"
  proof -
    have b: "base_id x = x" if "x \<in> set samples" for x
      using d that by (simp add: base_id_no_dot)
    then have i: "inj_on base_id (set samples)" by (simp add: inj_on_def)
    have "set (index df) = set samples" using ix b by auto
    moreover have "sorted (index df)" "distinct (index df)"
      by (simp_all add: df groupby_size_unstack_wf)
    moreover have "sorted (sort samples)" "distinct (sort samples)" "set (sort samples) = set samples"
      using assms(3) by simp_all
    ultimately have "index df = sort samples"
      by (metis sorted_distinct_set_unique)
    then show ?thesis using i s_iff f_iff by simp
  qed
  have "distinct (column_labels df)"
    by (simp add: df groupby_size_unstack_labels)
  moreover have "set (column_labels df) = snd ` set ?rows"
    by (simp add: df groupby_size_unstack_labels)
  ultimately show ?thesis using t ix n fr s_iff f_iff nodot by blast
qed


text \<open>
  Four samples without a \<open>"."\<close> give four rows, and the fractions sum to 1. The samples
  \<open>f.a\<close> and \<open>f.b\<close> give the one row \<open>f\<close> that holds their four copies: the entries sum
  to 4 against twice one row, and the fractions sum to 2.
\<close>

theorem makehaplodf_mass_of_samples_witness:
  "(let df = \<lparr>index = [''s1'', ''s2'', ''s3'', ''s4''],
              columns = [(''AA'', [1, 1, 1, 1]), (''AT'', [1, 1, 0, 1]),
                         (''TA'', [0, 0, 1, 0])]\<rparr>
    in makehaplodf sample_block False = Inr (df, [Code ''Y'', Code ''F'']) \<and>
       sum_list (column_sums df) = 2 * shape0 df \<and>
       (\<Sum>c\<leftarrow>columns df. real (sum_list (snd c)) / (2 * real (shape0 df))) = 1) \<and>
   (let df = \<lparr>index = [''f''],
              columns = [(''AA'', [2]), (''AT'', [1]), (''TA'', [1])]\<rparr>
    in makehaplodf sample_block_dotted False = Inr (df, [Code ''Y'', Code ''F'']) \<and>
       sum_list (column_sums df) = 4 \<and> shape0 df = 1 \<and>
       (\<Sum>c\<leftarrow>columns df. real (sum_list (snd c)) / (2 * real (shape0 df))) = 2)"
proof -
  let ?df = "\<lparr>index = [''s1'', ''s2'', ''s3'', ''s4''],
              columns = [(''AA'', [1, 1, 1, 1]), (''AT'', [1, 1, 0, 1]),
                         (''TA'', [0, 0, 1, 0::nat])]\<rparr>"
  let ?dg = "\<lparr>index = [''f''],
              columns = [(''AA'', [2]), (''AT'', [1]), (''TA'', [1::nat])]\<rparr>"
  have m: "makehaplodf sample_block False = Inr (?df, [Code ''Y'', Code ''F''])"
    by code_simp
  have l: "column_labels sample_block =
             concat (map (\<lambda>x. [x, x @ ''.1'']) [''s1'', ''s2'', ''s3'', ''s4''])"
    by (simp add: column_labels_def sample_block_def)
  have d: "distinct [''s1'', ''s2'', ''s3'', ''s4'']" by simp
  have ne: "[''s1'', ''s2'', ''s3'', ''s4''] \<noteq> []" by simp
  have nd: "\<forall>x \<in> set [''s1'', ''s2'', ''s3'', ''s4'']. CHR ''.'' \<notin> set x" by simp
  note g = makehaplodf_mass_of_samples [OF m l d ne]
  note g9 = g [THEN conjunct2, THEN conjunct2, THEN conjunct2, THEN conjunct2,
               THEN conjunct2, THEN conjunct2, THEN conjunct2, THEN conjunct2,
               THEN mp, OF nd]
  have g1: "sum_list (column_sums ?df) = 2 * shape0 ?df"
    by (rule g9 [THEN conjunct2, THEN conjunct1])
  have g2: "(\<Sum>c\<leftarrow>columns ?df. real (sum_list (snd c)) / (2 * real (shape0 ?df))) = 1"
    by (rule g9 [THEN conjunct2, THEN conjunct2])
  have m': "makehaplodf sample_block_dotted False = Inr (?dg, [Code ''Y'', Code ''F''])"
    by code_simp
  have l': "column_labels sample_block_dotted =
              concat (map (\<lambda>x. [x, x @ ''.1'']) [''f.a'', ''f.b''])"
    by (simp add: column_labels_def sample_block_dotted_def)
  have d': "distinct [''f.a'', ''f.b'']" by simp
  have ne': "[''f.a'', ''f.b''] \<noteq> []" by simp
  note h = makehaplodf_mass_of_samples [OF m' l' d' ne']
  have h1: "sum_list (column_sums ?dg) = 4"
    using h [THEN conjunct2, THEN conjunct2, THEN conjunct1] by simp
  have h2: "shape0 ?dg = 1"
    using h [THEN conjunct2, THEN conjunct2, THEN conjunct2, THEN conjunct2, THEN conjunct1]
    by (simp add: base_id_def)
  have h3: "(\<Sum>c\<leftarrow>columns ?dg. real (sum_list (snd c)) / (2 * real (shape0 ?dg))) = 2"
    using h [THEN conjunct2, THEN conjunct2, THEN conjunct2, THEN conjunct2, THEN conjunct2,
             THEN conjunct1] h2
    by simp
  show ?thesis unfolding Let_def using m g1 g2 m' h1 h2 h3 by blast
qed

section \<open>The single-row branch of \<open>obt_haplo_hard\<close>\<close>

text \<open>
  Claim C8. For a block of one row: when more than one label column survives the
  frequency filter, \<open>obt_haplo_hard\<close> drops a column with the highest total as
  reference, reports its label, and sets \<open>AAcount\<close> to 2 whatever the number of labels;
  when exactly one label survives, it leaves the matrix as it is, appends
  \<open>"missing"\<close> to the list of amino acids, reports the label as reference, and sets
  \<open>AAcount\<close> to 0.
\<close>

theorem obt_haplo_hard_single_row:
  assumes "shape0 aadf \<le> 1" and "makehaplodf aadf True = Inr (df, aas)"
  shows "(1 < length (columns df) \<longrightarrow>
           (\<exists>refix. refix < length (columns df) \<and>
              (\<forall>c \<in> set (columns df). sum_list (snd c) \<le> sum_list (snd (columns df ! refix))) \<and>
              obt_haplo_hard aadf =
                Inr \<lparr>haplodf = Counts (df\<lparr>columns :=
                         filter (\<lambda>c. fst c \<noteq> fst (columns df ! refix)) (columns df)\<rparr>),
                     AAcount = 2, refAA = Code (fst (columns df ! refix)),
                     aalist = map Code (column_labels df),
                     haplocount = length (filter (\<lambda>c. fst c \<noteq> fst (columns df ! refix))
                                            (columns df))\<rparr>)) \<and>
         (\<forall>c. columns df = [c] \<longrightarrow>
            obt_haplo_hard aadf =
              Inr \<lparr>haplodf = Counts df, AAcount = 0, refAA = Code (fst c),
                   aalist = [Code (fst c), Code ''missing''], haplocount = 1\<rparr>)"
proof (intro conjI impI allI)
  assume m: "1 < length (columns df)"
  then have "column_sums df \<noteq> []" by (auto simp: column_sums_def)
  then obtain refix where r: "argmax (column_sums df) = Inr refix"
    "refix < length (column_sums df)" "\<forall>x \<in> set (column_sums df). x \<le> column_sums df ! refix"
    using argmax_Inr by blast
  have l: "refix < length (columns df)" using r(2) by (simp add: column_sums_def)
  have mx: "\<forall>c \<in> set (columns df). sum_list (snd c) \<le> sum_list (snd (columns df ! refix))"
    using r(3) l by (simp add: column_sums_def)
  have lab: "column_labels df ! refix = fst (columns df ! refix)"
    using l by (simp add: column_labels_def)
  have mem: "fst (columns df ! refix) \<in> set (column_labels df)"
    using l by (simp add: column_labels_def)
  have "obt_haplo_hard aadf =
          Inr \<lparr>haplodf = Counts (df\<lparr>columns :=
                   filter (\<lambda>c. fst c \<noteq> fst (columns df ! refix)) (columns df)\<rparr>),
               AAcount = 2, refAA = Code (fst (columns df ! refix)),
               aalist = map Code (column_labels df),
               haplocount = length (filter (\<lambda>c. fst c \<noteq> fst (columns df ! refix))
                                      (columns df))\<rparr>"
    using assms m r(1) lab mem
    by (simp add: obt_haplo_hard_def Let_def drop_column_def shape1_def column_labels_def)
  with l mx show "\<exists>refix. refix < length (columns df) \<and>
              (\<forall>c \<in> set (columns df). sum_list (snd c) \<le> sum_list (snd (columns df ! refix))) \<and>
              obt_haplo_hard aadf =
                Inr \<lparr>haplodf = Counts (df\<lparr>columns :=
                         filter (\<lambda>c. fst c \<noteq> fst (columns df ! refix)) (columns df)\<rparr>),
                     AAcount = 2, refAA = Code (fst (columns df ! refix)),
                     aalist = map Code (column_labels df),
                     haplocount = length (filter (\<lambda>c. fst c \<noteq> fst (columns df ! refix))
                                            (columns df))\<rparr>"
    by blast
next
  fix c assume "columns df = [c]"
  then show "obt_haplo_hard aadf =
              Inr \<lparr>haplodf = Counts df, AAcount = 0, refAA = Code (fst c),
                   aalist = [Code (fst c), Code ''missing''], haplocount = 1\<rparr>"
    using assms by (simp add: obt_haplo_hard_def Let_def shape1_def column_labels_def)
qed

theorem obt_haplo_hard_single_row_witness:
  "obt_haplo_hard sample_block_three =
     Inr \<lparr>haplodf = Counts \<lparr>index = [''s1'', ''s2''],
                                 columns = [(''A'', [1, 0]), (''T'', [0, 1])]\<rparr>,
          AAcount = 2, refAA = Code ''G'',
          aalist = [Code ''A'', Code ''G'', Code ''T''], haplocount = 2\<rparr> \<and>
   obt_haplo_hard sample_block_one =
     Inr \<lparr>haplodf = Counts \<lparr>index = [''s1'', ''s2''], columns = [(''C'', [2, 2])]\<rparr>,
          AAcount = 0, refAA = Code ''C'',
          aalist = [Code ''C'', Code ''missing''], haplocount = 1\<rparr>"
proof (intro conjI)
  let ?df = "\<lparr>index = [''s1'', ''s2''],
              columns = [(''A'', [1, 0]), (''G'', [1, 1]), (''T'', [0, 1::nat])]\<rparr>"
  have s: "shape0 sample_block_three \<le> 1" by (simp add: shape0_def sample_block_three_def)
  have m: "makehaplodf sample_block_three True = Inr (?df, [Codes [''rs1'']])"
    by code_simp
  have n: "1 < length (columns ?df)" by simp
  from obt_haplo_hard_single_row [OF s m, THEN conjunct1, rule_format, OF n]
  obtain refix where r: "refix < length (columns ?df)"
    "\<forall>c \<in> set (columns ?df). sum_list (snd c) \<le> sum_list (snd (columns ?df ! refix))"
    "obt_haplo_hard sample_block_three =
       Inr \<lparr>haplodf = Counts (?df\<lparr>columns :=
                filter (\<lambda>c. fst c \<noteq> fst (columns ?df ! refix)) (columns ?df)\<rparr>),
            AAcount = 2, refAA = Code (fst (columns ?df ! refix)),
            aalist = map Code (column_labels ?df),
            haplocount = length (filter (\<lambda>c. fst c \<noteq> fst (columns ?df ! refix))
                                   (columns ?df))\<rparr>"
    by blast
  from r(1) have "refix = 0 \<or> refix = 1 \<or> refix = 2" by auto
  with r(2) have "refix = 1" by auto
  with r(3) show "obt_haplo_hard sample_block_three =
     Inr \<lparr>haplodf = Counts \<lparr>index = [''s1'', ''s2''],
                                 columns = [(''A'', [1, 0]), (''T'', [0, 1])]\<rparr>,
          AAcount = 2, refAA = Code ''G'',
          aalist = [Code ''A'', Code ''G'', Code ''T''], haplocount = 2\<rparr>"
    by (simp add: column_labels_def)
next
  let ?df = "\<lparr>index = [''s1'', ''s2''], columns = [(''C'', [2, 2::nat])]\<rparr>"
  have s: "shape0 sample_block_one \<le> 1" by (simp add: shape0_def sample_block_one_def)
  have m: "makehaplodf sample_block_one True = Inr (?df, [])"
    by code_simp
  have c: "columns ?df = [(''C'', [2, 2])]" by simp
  show "obt_haplo_hard sample_block_one =
     Inr \<lparr>haplodf = Counts ?df, AAcount = 0, refAA = Code ''C'',
          aalist = [Code ''C'', Code ''missing''], haplocount = 1\<rparr>"
    using obt_haplo_hard_single_row [OF s m, THEN conjunct2, rule_format, OF c] by simp
qed

section \<open>The all-absence label in \<open>obt_haplo_hard\<close>\<close>

text \<open>
  Claim C1, on the code. In a block of more than one row: when the upper-case
  all-absence label \<open>A...A\<close> is among the surviving columns, \<open>obt_haplo_hard\<close> drops it
  and reports the reference \<open>"missing"\<close>, whatever its frequency rank; when only the
  lower-case label \<open>a...a\<close> is, the test for it succeeds and the code then drops the
  upper-case label, which is not a column: it raises \<open>KeyError\<close> and returns nothing.
\<close>

theorem obt_haplo_hard_absence:
  assumes "1 < shape0 aadf" and "makehaplodf aadf True = Inr (df, aas)"
  shows "(replicate (shape0 aadf) CHR ''A'' \<in> set (column_labels df) \<longrightarrow>
           obt_haplo_hard aadf =
             Inr \<lparr>haplodf = Counts (df\<lparr>columns :=
                      filter (\<lambda>c. fst c \<noteq> replicate (shape0 aadf) CHR ''A'') (columns df)\<rparr>),
                  AAcount = shape1 df, refAA = Code ''missing'', aalist = aas,
                  haplocount = length (filter (\<lambda>c. fst c \<noteq> replicate (shape0 aadf) CHR ''A'')
                                         (columns df))\<rparr>) \<and>
         (replicate (shape0 aadf) CHR ''a'' \<in> set (column_labels df) \<and>
          replicate (shape0 aadf) CHR ''A'' \<notin> set (column_labels df) \<longrightarrow>
           obt_haplo_hard aadf = Inl KeyError)"
  using assms by (simp add: obt_haplo_hard_def drop_column_def shape1_def Let_def)

theorem obt_haplo_hard_absence_witness:
  "obt_haplo_hard sample_block =
     Inr \<lparr>haplodf = Counts \<lparr>index = [''s1'', ''s2'', ''s3'', ''s4''],
                   columns = [(''AT'', [1, 1, 0, 1]), (''TA'', [0, 0, 1, 0])]\<rparr>,
          AAcount = 3, refAA = Code ''missing'', aalist = [Code ''Y'', Code ''F''],
          haplocount = 2\<rparr> \<and>
   makehaplodf sample_block_lower True =
     Inr (\<lparr>index = [''s1'', ''s2''],
           columns = [(''aa'', [1, 1]), (''ap'', [0, 1]), (''pa'', [1, 0])]\<rparr>,
          [Code ''Y'', Code ''F'']) \<and>
   obt_haplo_hard sample_block_lower = Inl KeyError"
proof -
  have s: "1 < shape0 sample_block" by (simp add: shape0_def sample_block_def)
  have m: "makehaplodf sample_block True =
     Inr (\<lparr>index = [''s1'', ''s2'', ''s3'', ''s4''],
           columns = [(''AA'', [1, 1, 1, 1]), (''AT'', [1, 1, 0, 1]), (''TA'', [0, 0, 1, 0])]\<rparr>,
          [Code ''Y'', Code ''F''])"
    by code_simp
  have s': "1 < shape0 sample_block_lower" by (simp add: shape0_def sample_block_lower_def)
  have m': "makehaplodf sample_block_lower True =
     Inr (\<lparr>index = [''s1'', ''s2''],
           columns = [(''aa'', [1, 1]), (''ap'', [0, 1]), (''pa'', [1, 0])]\<rparr>,
          [Code ''Y'', Code ''F''])"
    by code_simp
  have "obt_haplo_hard sample_block =
     Inr \<lparr>haplodf = Counts \<lparr>index = [''s1'', ''s2'', ''s3'', ''s4''],
                   columns = [(''AT'', [1, 1, 0, 1]), (''TA'', [0, 0, 1, 0])]\<rparr>,
          AAcount = 3, refAA = Code ''missing'', aalist = [Code ''Y'', Code ''F''],
          haplocount = 2\<rparr>"
    using obt_haplo_hard_absence [OF s m, THEN conjunct1]
    by (simp add: column_labels_def shape0_def shape1_def sample_block_def)
  moreover have "obt_haplo_hard sample_block_lower = Inl KeyError"
    using obt_haplo_hard_absence [OF s' m', THEN conjunct2]
    by (simp add: column_labels_def shape0_def sample_block_lower_def)
  ultimately show ?thesis using m' by simp
qed

section \<open>The significance tests\<close>

text \<open>
  Claim C6. For every pair of fitted models, the statistic \<open>lrtest\<close> returns is twice
  the alternative model's log-likelihood minus the null model's, and the p-value is the
  chi-square survival function at that statistic with the alternative model's
  \<open>df_model\<close> minus the null model's as degrees of freedom.
\<close>

theorem lrtest_statistic:
  "lrtest e nullmodel altmodel =
     (2 * (llf altmodel - llf nullmodel),
      chi2_sf e (2 * (llf altmodel - llf nullmodel)) (df_model altmodel - df_model nullmodel))"
  by (simp add: lrtest_def Let_def)

text \<open>
  Claim C7. For nested fitted models (the residual degrees of freedom differ, and the
  scale is not zero), with \<open>modeltype\<close> \<open>"logit"\<close> the residual term of a model is twice
  the unnormalised log-loss of the true classes against the pairs \<open>(1 - p, p)\<close> of its
  predictions, and otherwise it is the model's residual sum of squares; the F statistic
  is the null residual minus the alternative one, divided by the difference of the
  residual degrees of freedom, divided by the alternative model's scale; and the p-value
  is the F survival function at it with that difference and the alternative model's
  residual degrees of freedom.
\<close>

theorem anova_statistic:
  assumes "df_resid nullmodel \<noteq> df_resid altmodel" and "scale altmodel \<noteq> 0"
  shows "(modeltype = ''logit'' \<longrightarrow>
           anova e nullmodel altmodel ytrue modeltype =
             Inr ((2 * log_loss e ytrue (map (\<lambda>p. (1 - p, p)) (predict nullmodel))
                   - 2 * log_loss e ytrue (map (\<lambda>p. (1 - p, p)) (predict altmodel)))
                  / (df_resid nullmodel - df_resid altmodel) / scale altmodel,
                  f_sf e ((2 * log_loss e ytrue (map (\<lambda>p. (1 - p, p)) (predict nullmodel))
                           - 2 * log_loss e ytrue (map (\<lambda>p. (1 - p, p)) (predict altmodel)))
                          / (df_resid nullmodel - df_resid altmodel) / scale altmodel)
                    (df_resid nullmodel - df_resid altmodel) (df_resid altmodel))) \<and>
         (modeltype \<noteq> ''logit'' \<longrightarrow>
           (\<forall>null_ssr alt_ssr. ssr nullmodel = Some null_ssr \<and> ssr altmodel = Some alt_ssr \<longrightarrow>
              anova e nullmodel altmodel ytrue modeltype =
                Inr ((null_ssr - alt_ssr) / (df_resid nullmodel - df_resid altmodel)
                       / scale altmodel,
                     f_sf e ((null_ssr - alt_ssr) / (df_resid nullmodel - df_resid altmodel)
                               / scale altmodel)
                       (df_resid nullmodel - df_resid altmodel) (df_resid altmodel))))"
  using assms by (simp add: anova_def deviance_def Let_def)

theorem anova_statistic_witness:
  "anova sample_ext
     (sample_model ''PHENO ~ C(SEX)''
        \<lparr>exposure = haplodf (sample_result 3), covariates = sample_fam\<rparr>)
     (sample_model ''PHENO ~ C(SEX) +AT+TA''
        \<lparr>exposure = haplodf (sample_result 3), covariates = sample_fam\<rparr>)
     (map PHENO sample_fam) ''logit'' = Inr (0, 1 / 8) \<and>
   anova sample_ext
     (sample_model ''PHENO ~ C(SEX)''
        \<lparr>exposure = haplodf (sample_result 3), covariates = sample_fam\<rparr>)
     (sample_model ''PHENO ~ C(SEX) +AT+TA''
        \<lparr>exposure = haplodf (sample_result 3), covariates = sample_fam\<rparr>)
     (map PHENO sample_fam) ''linear'' = Inr (1, 1 / 8)"
proof -
  let ?t = "\<lparr>exposure = haplodf (sample_result 3), covariates = sample_fam\<rparr>"
  let ?n = "sample_model ''PHENO ~ C(SEX)'' ?t"
  let ?a = "sample_model ''PHENO ~ C(SEX) +AT+TA'' ?t"
  have d: "df_resid ?n \<noteq> df_resid ?a" by (simp add: sample_model_def)
  have s: "scale ?a \<noteq> 0" by (simp add: sample_model_def)
  note t = anova_statistic [OF d s, of _ sample_ext "map PHENO sample_fam"]
  have l: "anova sample_ext ?n ?a (map PHENO sample_fam) ''logit'' = Inr (0, 1 / 8)"
    using t [of "''logit''", THEN conjunct1]
    by (simp add: sample_model_def sample_ext_def sample_fam_def)
  have n: "''linear'' \<noteq> ''logit''" by simp
  have r: "ssr ?n = Some 86 \<and> ssr ?a = Some 79" by (simp add: sample_model_def)
  have "anova sample_ext ?n ?a (map PHENO sample_fam) ''linear'' = Inr (1, 1 / 8)"
    using t [of "''linear''", THEN conjunct2, rule_format, OF n r]
    by (simp add: sample_model_def sample_ext_def)
  with l show ?thesis by simp
qed

text \<open>
  What \<open>obt\<close> returns: the statistic and p-value of \<open>lrtest\<close> and of \<open>anova\<close> on the two
  fits, and the rounded parameters of the alternative fit at the haplotype columns.
\<close>

lemma obt_results:
  assumes "obt e t haplotypenumber model = Inr (lrstat, lrp, fstat, fp, coefs)"
    and "fit = (if lower model = ''logit'' then glm_fit e else ols_fit e)"
    and "exposures = take (length (abt_columns t) - 2) (abt_columns t)"
  shows "\<exists>alt_model null_model raw.
           fit (''PHENO ~ C(SEX) +'' @ join ''+'' exposures) t = Inr alt_model \<and>
           fit (if 0 < length (drop haplotypenumber exposures)
                then ''PHENO ~ C(SEX) +'' @ join ''+'' (drop haplotypenumber exposures)
                else ''PHENO ~ C(SEX)'') t = Inr null_model \<and>
           lrtest e null_model alt_model = (lrstat, lrp) \<and>
           anova e null_model alt_model (map PHENO (covariates t)) model = Inr (fstat, fp) \<and>
           lookup_all (params alt_model) (take haplotypenumber (abt_columns t)) = Inr raw \<and>
           coefs = map (round3 e) raw"
  using assms(1) unfolding assms(2,3) obt_def Let_def
  by (auto split: sum.splits prod.splits)

section \<open>The tiers of \<open>analyseAA\<close>\<close>

text \<open>
  Claim C2. The row \<open>analyseAA\<close> writes for a variant (\<open>analyseAA_row\<close>, on what the
  haplotype builder returned) follows the count \<open>AAcount\<close>: above 2 it holds the LR
  p-value and the ANOVA p-value of \<open>obt\<close> and its rounded coefficients joined by
  \<open>", "\<close>, with \<open>Uni_p\<close> and \<open>Uni_Coef\<close> \<open>NaN\<close>; at exactly 2 it holds the p-value and
  the coefficient of \<open>linear_model\<close>, with \<open>LR_p\<close>, \<open>Anova_p\<close> and \<open>multi_Coef\<close> \<open>NaN\<close>;
  at any other count every statistic field and \<open>Ref_AA\<close> are \<open>NaN\<close>.
\<close>

theorem analyseAA_row_tiers:
  assumes "aainfo \<noteq> []"
  shows "(2 < AAcount r \<longrightarrow>
           (\<forall>lrstat lrp fstat fp coefs.
              obt e \<lparr>exposure = haplodf r, covariates = fam\<rparr> (haplocount r) modeltype
                = Inr (lrstat, lrp, fstat, fp, coefs) \<longrightarrow>
              (\<exists>row. analyseAA_row e x aainfo fam modeltype r = Inr row \<and>
                 LR_p row = Val lrp \<and> Anova_p row = Val fp \<and>
                 multi_Coef row = Val (join '', '' (map (str_float e) coefs)) \<and>
                 Uni_p row = NaN \<and> Uni_Coef row = NaN \<and> Ref_AA row = Val (refAA r)))) \<and>
         (AAcount r = 2 \<longrightarrow>
           (\<forall>uni_p coef ci1 ci2.
              linear_model e \<lparr>exposure = haplodf r, covariates = fam\<rparr> modeltype
                = Inr (uni_p, coef, ci1, ci2) \<longrightarrow>
              (\<exists>row. analyseAA_row e x aainfo fam modeltype r = Inr row \<and>
                 Uni_p row = Val uni_p \<and> Uni_Coef row = Val coef \<and>
                 LR_p row = NaN \<and> Anova_p row = NaN \<and> multi_Coef row = NaN \<and>
                 Ref_AA row = Val (refAA r)))) \<and>
         (AAcount r < 2 \<longrightarrow>
           (\<exists>row. analyseAA_row e x aainfo fam modeltype r = Inr row \<and>
              LR_p row = NaN \<and> Anova_p row = NaN \<and> multi_Coef row = NaN \<and>
              Uni_p row = NaN \<and> Uni_Coef row = NaN \<and> Ref_AA row = NaN))"
proof -
  obtain i rest where i: "aainfo = i # rest" using assms by (cases aainfo) auto
  show ?thesis
    by (intro conjI impI allI) (simp_all add: analyseAA_row_def i)
qed

theorem analyseAA_row_tiers_witness:
  "(\<exists>row. analyseAA_row sample_ext ''AA_A_9_100'' (info sample_AA) sample_fam ''linear''
             (sample_result 3) = Inr row \<and>
      LR_p row = Val (1 / 4) \<and> Anova_p row = Val (1 / 8) \<and>
      multi_Coef row = Val ''1.0, 1.0'' \<and> Uni_p row = NaN \<and> Uni_Coef row = NaN \<and>
      Ref_AA row = Val (Code ''missing'')) \<and>
   (\<exists>row. analyseAA_row sample_ext ''AA_A_9_100'' (info sample_AA) sample_fam ''linear''
             (sample_result 2) = Inr row \<and>
      Uni_p row = Val (1 / 2) \<and> Uni_Coef row = Val 1 \<and>
      LR_p row = NaN \<and> Anova_p row = NaN \<and> multi_Coef row = NaN \<and>
      Ref_AA row = Val (Code ''S'')) \<and>
   (\<exists>row. analyseAA_row sample_ext ''AA_A_9_100'' (info sample_AA) sample_fam ''linear''
             (sample_result 0) = Inr row \<and>
      LR_p row = NaN \<and> Anova_p row = NaN \<and> multi_Coef row = NaN \<and>
      Uni_p row = NaN \<and> Uni_Coef row = NaN \<and> Ref_AA row = NaN)"
proof (intro conjI)
  have i: "info sample_AA \<noteq> []" by (simp add: sample_AA_def)
  note t = analyseAA_row_tiers [OF i, of _ sample_ext sample_fam "''linear''" "''AA_A_9_100''"]
  have c3: "2 < AAcount (sample_result 3)" by (simp add: sample_result_def)
  have o: "obt sample_ext \<lparr>exposure = haplodf (sample_result 3), covariates = sample_fam\<rparr>
             (haplocount (sample_result 3)) ''linear''
           = Inr (14, 1 / 4, 1, 1 / 8, [1, 1])"
    by code_simp
  show "\<exists>row. analyseAA_row sample_ext ''AA_A_9_100'' (info sample_AA) sample_fam ''linear''
             (sample_result 3) = Inr row \<and>
      LR_p row = Val (1 / 4) \<and> Anova_p row = Val (1 / 8) \<and>
      multi_Coef row = Val ''1.0, 1.0'' \<and> Uni_p row = NaN \<and> Uni_Coef row = NaN \<and>
      Ref_AA row = Val (Code ''missing'')"
    using t [of "sample_result 3", THEN conjunct1, rule_format, OF c3 o]
    by (simp add: sample_ext_def sample_result_def)
  have c2: "AAcount (sample_result 2) = 2" by (simp add: sample_result_def)
  have l: "linear_model sample_ext
             \<lparr>exposure = haplodf (sample_result 2), covariates = sample_fam\<rparr> ''linear''
           = Inr (1 / 2, 1, 3, 4)"
    by code_simp
  show "\<exists>row. analyseAA_row sample_ext ''AA_A_9_100'' (info sample_AA) sample_fam ''linear''
             (sample_result 2) = Inr row \<and>
      Uni_p row = Val (1 / 2) \<and> Uni_Coef row = Val 1 \<and>
      LR_p row = NaN \<and> Anova_p row = NaN \<and> multi_Coef row = NaN \<and>
      Ref_AA row = Val (Code ''S'')"
    using t [of "sample_result 2", THEN conjunct2, THEN conjunct1, rule_format, OF c2 l]
    by (simp add: sample_result_def)
  have c0: "AAcount (sample_result 0) < 2" by (simp add: sample_result_def)
  show "\<exists>row. analyseAA_row sample_ext ''AA_A_9_100'' (info sample_AA) sample_fam ''linear''
             (sample_result 0) = Inr row \<and>
      LR_p row = NaN \<and> Anova_p row = NaN \<and> multi_Coef row = NaN \<and>
      Uni_p row = NaN \<and> Uni_Coef row = NaN \<and> Ref_AA row = NaN"
    using t [of "sample_result 0", THEN conjunct2, THEN conjunct2, rule_format, OF c0] .
qed

text \<open>
  Every row of the output of \<open>analyseAA\<close> is the row \<open>analyseAA_row\<close> writes for one of
  the variants, from what the haplotype builder returned on the variant's slice.
\<close>

lemma analyseAA_loop_rows:
  assumes "analyseAA_loop e t df infos fam modeltype aminoacids acc = Inr rows"
    and "row \<in> set rows"
  shows "row \<in> set acc \<or>
         (\<exists>x r. x \<in> set aminoacids \<and>
            build_haplo t (slice_data df infos x) (slice_info infos x) = Inr r \<and>
            analyseAA_row e x (slice_info infos x) fam modeltype r = Inr row)"
  using assms
proof (induction aminoacids arbitrary: acc)
  case Nil
  then show ?case by simp
next
  case (Cons x aminoacids)
  from Cons.prems(1) obtain r new where
    b: "build_haplo t (slice_data df infos x) (slice_info infos x) = Inr r"
    and a: "analyseAA_row e x (slice_info infos x) fam modeltype r = Inr new"
    and l: "analyseAA_loop e t df infos fam modeltype aminoacids (acc @ [new]) = Inr rows"
    by (auto split: sum.splits)
  from Cons.IH [OF l Cons.prems(2)] show ?case
  proof
    assume "row \<in> set (acc @ [new])"
    then show ?thesis using a b by auto
  next
    assume "\<exists>x r. x \<in> set aminoacids \<and>
            build_haplo t (slice_data df infos x) (slice_info infos x) = Inr r \<and>
            analyseAA_row e x (slice_info infos x) fam modeltype r = Inr row"
    then show ?thesis by auto
  qed
qed

lemma analyseAA_rows:
  assumes "analyseAA e hladat famfile modeltype = Inr out" and "orow \<in> set out"
  shows "\<exists>df infos fam aminoacids x r row.
           processAnalysisInput (AA hladat) famfile (htype hladat)
             = Inr (df, infos, fam, aminoacids) \<and>
           x \<in> set aminoacids \<and>
           build_haplo (htype hladat) (slice_data df infos x) (slice_info infos x) = Inr r \<and>
           analyseAA_row e x (slice_info infos x) fam modeltype r = Inr row \<and>
           orow = add_LRp_Unip row"
proof -
  from assms(1) obtain df infos fam aminoacids rows where
    p: "processAnalysisInput (AA hladat) famfile (htype hladat) = Inr (df, infos, fam, aminoacids)"
    and l: "analyseAA_loop e (htype hladat) df infos fam modeltype aminoacids [] = Inr rows"
    and eq: "out = map add_LRp_Unip rows"
    by (auto simp: analyseAA_def split: sum.splits)
  from assms(2) eq obtain row where r: "row \<in> set rows" "orow = add_LRp_Unip row" by auto
  from analyseAA_loop_rows [OF l r(1)] p r(2) show ?thesis by auto
qed

text \<open>
  The variants of the loop are the identifiers of the info table, so the slice of a
  variant has a row, and \<open>analyseAA_row\<close> finds the gene and the position it reports.
\<close>

lemma slice_info_nonempty:
  assumes "processAnalysisInput tbl famfile datatype = Inr (df, infos, fam, variants)"
    and "x \<in> set variants"
  shows "slice_info infos x \<noteq> []"
proof -
  from assms(1) have "infos = info tbl" and "variants = unique (map AA_ID (info tbl))"
    by (auto simp: processAnalysisInput_def Let_def split: sum.splits)
  with assms(2) have "x \<in> AA_ID ` set infos" by (simp add: unique_def)
  then show ?thesis by (auto simp: slice_info_def filter_empty_conv)
qed

text \<open>The results of the builder on the three positions of the sample.\<close>

lemma build_haplo_sample_AA:
  "map (\<lambda>x. build_haplo ''hardcall'' (slice_data (data sample_AA) (info sample_AA) x)
                (slice_info (info sample_AA) x))
     [''AA_A_9_100'', ''AA_B_5_200'', ''AA_C_7_300''] =
   [Inr (sample_result 3), Inr (sample_result 2), Inr (sample_result 0)]"
  by code_simp

lemma analyseAA_sample_run:
  "analyseAA sample_ext (sample_hladat ''G'') sample_fam ''linear'' =
     Inr [\<lparr>out_VARIANT = ''AA_A_9_100'', out_GENE = Val ''A'', out_AA_POS = Val ''9'',
            LR_p = Val (1 / 4), Anova_p = Val (1 / 8), multi_Coef = Val ''1.0, 1.0'',
            Uni_p = NaN, Uni_Coef = NaN, Amino_Acids = {''Y'', ''F''},
            Ref_AA = Val (Code ''missing''), LRp_Unip = Val (1 / 4)\<rparr>,
          \<lparr>out_VARIANT = ''AA_B_5_200'', out_GENE = Val ''B'', out_AA_POS = Val ''5'',
            LR_p = NaN, Anova_p = NaN, multi_Coef = NaN,
            Uni_p = Val (1 / 2), Uni_Coef = Val 1, Amino_Acids = {''T'', ''S''},
            Ref_AA = Val (Code ''S''), LRp_Unip = Val (1 / 2)\<rparr>,
          \<lparr>out_VARIANT = ''AA_C_7_300'', out_GENE = Val ''C'', out_AA_POS = Val ''7'',
            LR_p = NaN, Anova_p = NaN, multi_Coef = NaN,
            Uni_p = NaN, Uni_Coef = NaN, Amino_Acids = {''C'', ''missing''},
            Ref_AA = NaN, LRp_Unip = NaN\<rparr>]"
  by code_simp

lemma analyseAA_sample_run_zero:
  "analyseAA (sample_ext\<lparr>chi2_sf := (\<lambda>x d. 0)\<rparr>) (sample_hladat ''G'') sample_fam ''linear'' =
     Inr [\<lparr>out_VARIANT = ''AA_A_9_100'', out_GENE = Val ''A'', out_AA_POS = Val ''9'',
            LR_p = Val 0, Anova_p = Val (1 / 8), multi_Coef = Val ''1.0, 1.0'',
            Uni_p = NaN, Uni_Coef = NaN, Amino_Acids = {''Y'', ''F''},
            Ref_AA = Val (Code ''missing''), LRp_Unip = NaN\<rparr>,
          \<lparr>out_VARIANT = ''AA_B_5_200'', out_GENE = Val ''B'', out_AA_POS = Val ''5'',
            LR_p = NaN, Anova_p = NaN, multi_Coef = NaN,
            Uni_p = Val (1 / 2), Uni_Coef = Val 1, Amino_Acids = {''T'', ''S''},
            Ref_AA = Val (Code ''S''), LRp_Unip = Val (1 / 2)\<rparr>,
          \<lparr>out_VARIANT = ''AA_C_7_300'', out_GENE = Val ''C'', out_AA_POS = Val ''7'',
            LR_p = NaN, Anova_p = NaN, multi_Coef = NaN,
            Uni_p = NaN, Uni_Coef = NaN, Amino_Acids = {''C'', ''missing''},
            Ref_AA = NaN, LRp_Unip = NaN\<rparr>]"
  by code_simp

text \<open>
  Claim C10. In every row of the output of \<open>analyseAA\<close>, \<open>LRp_Unip\<close> is the sum of
  \<open>LR_p\<close> and \<open>Uni_p\<close> with \<open>NaN\<close> counted as 0, and \<open>NaN\<close> when that sum is 0. So where
  exactly one of the two is not \<open>NaN\<close>, \<open>LRp_Unip\<close> is that p-value, except that a
  p-value of exactly 0 is reported as \<open>NaN\<close>; and where both are \<open>NaN\<close>, it is \<open>NaN\<close>.
\<close>

theorem analyseAA_LRp_Unip:
  assumes "analyseAA e hladat famfile modeltype = Inr output" and "row \<in> set output"
  shows "LRp_Unip row =
           (if (case LR_p row of NaN \<Rightarrow> 0 | Val v \<Rightarrow> v)
               + (case Uni_p row of NaN \<Rightarrow> 0 | Val v \<Rightarrow> v) = 0
            then NaN
            else Val ((case LR_p row of NaN \<Rightarrow> 0 | Val v \<Rightarrow> v)
                      + (case Uni_p row of NaN \<Rightarrow> 0 | Val v \<Rightarrow> v))) \<and>
         (\<forall>p. LR_p row = Val p \<and> Uni_p row = NaN \<longrightarrow>
              LRp_Unip row = (if p = 0 then NaN else Val p)) \<and>
         (\<forall>p. LR_p row = NaN \<and> Uni_p row = Val p \<longrightarrow>
              LRp_Unip row = (if p = 0 then NaN else Val p)) \<and>
         (LR_p row = NaN \<and> Uni_p row = NaN \<longrightarrow> LRp_Unip row = NaN)"
proof -
  from assms(1) obtain rows where "output = map add_LRp_Unip rows"
    by (auto simp: analyseAA_def split: sum.splits)
  with assms(2) obtain r where r: "row = add_LRp_Unip r" by auto
  show ?thesis
    unfolding r by (simp add: add_LRp_Unip_def replace0_def fillna0_def)
qed

theorem analyseAA_LRp_Unip_witness:
  "(\<exists>output. analyseAA sample_ext (sample_hladat ''G'') sample_fam ''linear'' = Inr output \<and>
      map LR_p output = [Val (1 / 4), NaN, NaN] \<and>
      map Uni_p output = [NaN, Val (1 / 2), NaN] \<and>
      map LRp_Unip output = [Val (1 / 4), Val (1 / 2), NaN]) \<and>
   (\<exists>output. analyseAA (sample_ext\<lparr>chi2_sf := (\<lambda>x d. 0)\<rparr>) (sample_hladat ''G'') sample_fam
                ''linear'' = Inr output \<and>
      map LR_p output = [Val 0, NaN, NaN] \<and>
      map Uni_p output = [NaN, Val (1 / 2), NaN] \<and>
      map LRp_Unip output = [NaN, Val (1 / 2), NaN])"
proof (intro conjI)
  obtain out where
    run: "analyseAA sample_ext (sample_hladat ''G'') sample_fam ''linear'' = Inr out"
    and lr: "map LR_p out = [Val (1 / 4), NaN, NaN]"
    and uni: "map Uni_p out = [NaN, Val (1 / 2), NaN]"
    using analyseAA_sample_run by simp
  from lr obtain r1 r2 r3 where o: "out = [r1, r2, r3]" by auto
  have "LRp_Unip r1 = Val (1 / 4)"
    using analyseAA_LRp_Unip [OF run, of r1] lr uni o by simp
  moreover have "LRp_Unip r2 = Val (1 / 2)"
    using analyseAA_LRp_Unip [OF run, of r2] lr uni o by simp
  moreover have "LRp_Unip r3 = NaN"
    using analyseAA_LRp_Unip [OF run, of r3] lr uni o by simp
  ultimately show "\<exists>output. analyseAA sample_ext (sample_hladat ''G'') sample_fam ''linear''
        = Inr output \<and>
      map LR_p output = [Val (1 / 4), NaN, NaN] \<and>
      map Uni_p output = [NaN, Val (1 / 2), NaN] \<and>
      map LRp_Unip output = [Val (1 / 4), Val (1 / 2), NaN]"
    using run lr uni o by simp
next
  let ?e = "sample_ext\<lparr>chi2_sf := (\<lambda>x d. 0)\<rparr>"
  obtain out where
    run: "analyseAA ?e (sample_hladat ''G'') sample_fam ''linear'' = Inr out"
    and lr: "map LR_p out = [Val 0, NaN, NaN]"
    and uni: "map Uni_p out = [NaN, Val (1 / 2), NaN]"
    using analyseAA_sample_run_zero by simp
  from lr obtain r1 r2 r3 where o: "out = [r1, r2, r3]" by auto
  have "LRp_Unip r1 = NaN"
    using analyseAA_LRp_Unip [OF run, of r1] lr uni o by simp
  moreover have "LRp_Unip r2 = Val (1 / 2)"
    using analyseAA_LRp_Unip [OF run, of r2] lr uni o by simp
  moreover have "LRp_Unip r3 = NaN"
    using analyseAA_LRp_Unip [OF run, of r3] lr uni o by simp
  ultimately show "\<exists>output. analyseAA ?e (sample_hladat ''G'') sample_fam ''linear''
        = Inr output \<and>
      map LR_p output = [Val 0, NaN, NaN] \<and>
      map Uni_p output = [NaN, Val (1 / 2), NaN] \<and>
      map LRp_Unip output = [NaN, Val (1 / 2), NaN]"
    using run lr uni o by simp
qed

section \<open>The rows of \<open>analyseSNP\<close>\<close>

lemma processAnalysisInput_sample_SNP:
  "processAnalysisInput (SNP (sample_hladat g)) sample_fam ''hardcall'' =
     Inr (data (sample_SNP g), info (sample_SNP g),
          [\<lparr>IID = ''s1'', SEX = 1, PHENO = Val 0\<rparr>, \<lparr>IID = ''s2'', SEX = 2, PHENO = Val 1\<rparr>,
           \<lparr>IID = ''s3'', SEX = 1, PHENO = Val 1\<rparr>, \<lparr>IID = ''s4'', SEX = 2, PHENO = Val 0\<rparr>],
          [''rs1'', ''rs2''])"
  by (simp add: processAnalysisInput_def sample_hladat_def sample_SNP_def sample_fam_def
      subsectionFam_def select_columns_def column_labels_def unique_def)

lemma build_snp_sample_rs1:
  "build_snp ''hardcall''
     (slice_data (data (sample_SNP ''G'')) (info (sample_SNP ''G'')) ''rs1'') =
     Inr (Counts \<lparr>index = [''s1'', ''s2'', ''s3'', ''s4''],
                  columns = [(''A'', [1, 0, 0, 0])]\<rparr>, 2)"
  by code_simp

lemma build_snp_sample_rs2:
  "build_snp ''hardcall''
     (slice_data (data (sample_SNP ''G'')) (info (sample_SNP ''G'')) ''rs2'') =
     Inr (Counts \<lparr>index = [''s1'', ''s2'', ''s3'', ''s4''],
                  columns = [(''C'', [2, 2, 2, 2])]\<rparr>, 0)"
  by code_simp

lemma slice_info_sample_SNP:
  "slice_info (info (sample_SNP g)) ''rs1'' =
     [\<lparr>AA_ID = ''rs1'', GENE = NaN, AA_POS = NaN, POS = Val ''101'', alleles = None\<rparr>]"
  "slice_info (info (sample_SNP g)) ''rs2'' =
     [\<lparr>AA_ID = ''rs2'', GENE = NaN, AA_POS = NaN, POS = Val ''102'', alleles = None\<rparr>]"
  by (simp_all add: slice_info_def sample_SNP_def)

text \<open>
  The run of \<open>analyseSNP\<close> on the sample, whatever the fitting library returns: the
  second SNP has one allele, so its count is 0 and no model is fitted for it, and its
  row holds the confidence bounds that \<open>linear_model\<close> returned for the first SNP.
\<close>

lemma analyseSNP_sample_any_fit:
  "analyseSNP e (sample_hladat ''G'') sample_fam modeltype =
     (case linear_model e
             \<lparr>exposure = Counts \<lparr>index = [''s1'', ''s2'', ''s3'', ''s4''],
                                 columns = [(''snp_A'', [1, 0, 0, 0])]\<rparr>,
              covariates =
                [\<lparr>IID = ''s1'', SEX = 1, PHENO = Val 0\<rparr>, \<lparr>IID = ''s2'', SEX = 2, PHENO = Val 1\<rparr>,
                 \<lparr>IID = ''s3'', SEX = 1, PHENO = Val 1\<rparr>, \<lparr>IID = ''s4'', SEX = 2, PHENO = Val 0\<rparr>]\<rparr>
             modeltype of
        Inl err \<Rightarrow> Inl err
      | Inr (uni_p, coef, conf_int1, conf_int2) \<Rightarrow>
          Inr [\<lparr>snp_VARIANT = ''rs1'', snp_POS = Val ''101'', snp_Uni_p = Val uni_p,
                 snp_Uni_Coef = Val coef, CI_0_025 = conf_int1, CI_0_975 = conf_int2\<rparr>,
               \<lparr>snp_VARIANT = ''rs2'', snp_POS = Val ''102'', snp_Uni_p = NaN,
                 snp_Uni_Coef = NaN, CI_0_025 = conf_int1, CI_0_975 = conf_int2\<rparr>])"
proof -
  have h: "htype (sample_hladat ''G'') = ''hardcall''" by (simp add: sample_hladat_def)
  show ?thesis
    unfolding analyseSNP_def h processAnalysisInput_sample_SNP
    by (simp add: build_snp_sample_rs1 build_snp_sample_rs2 slice_info_sample_SNP
        rename_design_def rename_columns_def split: sum.splits)
qed

text \<open>
  Claim C9 fails on the code. Two runs of \<open>analyseSNP\<close> whose data differ in one call
  of the first SNP only, and so not in the second SNP's slice, write different rows for
  the second SNP: its tier is not univariate, and its fields \<open>CI_0.025\<close> and \<open>CI_0.975\<close>
  are those computed for the first SNP in the same run.
\<close>

theorem analyseSNP_row_depends_on_earlier_variant:
  "analyseSNP sample_ext (sample_hladat ''G'') sample_fam ''linear'' =
     Inr [\<lparr>snp_VARIANT = ''rs1'', snp_POS = Val ''101'', snp_Uni_p = Val (1 / 2),
            snp_Uni_Coef = Val 1, CI_0_025 = 1, CI_0_975 = 2\<rparr>,
          \<lparr>snp_VARIANT = ''rs2'', snp_POS = Val ''102'', snp_Uni_p = NaN,
            snp_Uni_Coef = NaN, CI_0_025 = 1, CI_0_975 = 2\<rparr>] \<and>
   analyseSNP sample_ext (sample_hladat ''A'') sample_fam ''linear'' =
     Inr [\<lparr>snp_VARIANT = ''rs1'', snp_POS = Val ''101'', snp_Uni_p = Val (1 / 2),
            snp_Uni_Coef = Val 1, CI_0_025 = 2, CI_0_975 = 3\<rparr>,
          \<lparr>snp_VARIANT = ''rs2'', snp_POS = Val ''102'', snp_Uni_p = NaN,
            snp_Uni_Coef = NaN, CI_0_025 = 2, CI_0_975 = 3\<rparr>] \<and>
   slice_data (data (SNP (sample_hladat ''G''))) (info (SNP (sample_hladat ''G''))) ''rs2'' =
   slice_data (data (SNP (sample_hladat ''A''))) (info (SNP (sample_hladat ''A''))) ''rs2''"
  by code_simp

text \<open>
  When the first SNP of a run is the one that is not univariate, the two names are still
  unbound where its row is written, and the run ends in \<open>NameError\<close>.
\<close>

lemma analyseSNP_sample_unbound:
  "analyseSNP sample_ext
     ((sample_hladat ''G'')\<lparr>SNP :=
        \<lparr>data = slice_data (data (sample_SNP ''G'')) (info (sample_SNP ''G'')) ''rs2'',
         info = slice_info (info (sample_SNP ''G'')) ''rs2''\<rparr>\<rparr>)
     sample_fam ''linear'' = Inl NameError"
  by code_simp

end
